theory Spec2Isabelle
  imports Complex_Main "HOL-Library.Word"
begin

section \<open>IFC viewer: a shallow embedding of the viewer's own logic\<close>

text \<open>
  The viewer is one TypeScript module that wires a BIM component library and a 3D
  engine to a page. The repository holds it in two versions, \<open>main.ts\<close> and a longer
  one that adds the ground-floor normalisation, the computed camera framing and the
  view cube; of the functions modelled here, those that both versions have are the
  same in both (but for one unused variable), and the longer version is modelled
  where only it has the function.

  The embedding keeps the module's own state (its \<open>let\<close> variables and the DOM nodes
  it owns) in records, and writes every call into the library as an entry of a call
  log, so that what the viewer hands to the library is a value that theorems can speak
  about. What the library answers (a bounding box, the items of a category, whether a
  load throws) is an input of the modelled function. A library call that throws
  outside any \<open>try\<close> block ends the function that made it; the model describes the runs
  in which these calls return.

  JavaScript numbers are modelled as \<open>real\<close>: rounding of IEEE doubles, \<open>NaN\<close> and the
  infinities are outside the model. Console output is not part of the state.
  Portuguese message texts with characters outside ASCII are kept as constructors of
  small datatypes named after the text.
\<close>

subsection \<open>Loading a file: \<open>loadIfcFromFile\<close> and its two entry points\<close>

type_synonym byte = "8 word"

datatype js_error = JsError string

text \<open>A \<open>File\<close>: its name and what \<open>file.arrayBuffer()\<close> resolves to (or rejects with).\<close>

record js_file =
  file_name :: string
  arrayBuffer :: "js_error + byte list"

text \<open>The arguments of one call \<open>ifcLoader.load(buffer, coordinate, name, config)\<close>.\<close>

record load_call =
  buffer :: "byte list"
  coordinate :: bool
  model_name :: string

text \<open>
  What the library does with one load: the progress values it reports through the
  \<open>progressCallback\<close> of the call, and whether the returned promise resolves or rejects.
\<close>

record load_outcome =
  progress_reports :: "real list"
  load_result :: "js_error + unit"

datatype display = DisplayNone | DisplayFlex

datatype status_text =
  ProcessandoArquivoIFC | Iniciando | LendoArquivo | ProcessandoIFC
  | ConvertendoGeometrias | Concluido

datatype alert_text = ErroAoCarregarIFC | SolteApenasArquivosIfc | CarregueUmModeloPrimeiro

text \<open>
  The module variable \<open>isLoading\<close>, the loading overlay (its \<open>display\<close> style, the file
  name paragraph, the progress percentage written to both the bar width and the label,
  the status paragraph), the alerts shown so far, the calls made to
  \<open>ifcLoader.load\<close> so far, and whether the drop-zone element that a drag over the
  container adds is in the page (the module variable \<open>dropZone\<close>).
\<close>

record loader =
  isLoading :: bool
  overlay_display :: display
  loading_filename :: string
  progress_percent :: int
  loading_status :: status_text
  alerts :: "alert_text list"
  ifcLoader_calls :: "load_call list"
  dropZone :: bool

text \<open>\<open>Math.round\<close> rounds to the nearest integer, halves upwards.\<close>

definition Math_round :: "real \<Rightarrow> int" where
  "Math_round v = \<lfloor>v + 1 / 2\<rfloor>"

text \<open>
  \<open>updateProgress(progress, status?)\<close>; the optional status is \<open>None\<close> when the
  argument is missing (the source's test \<open>if (status)\<close>).
\<close>

definition updateProgress :: "real \<Rightarrow> status_text option \<Rightarrow> loader \<Rightarrow> loader" where
  "updateProgress progress status st =
     (let st1 = st\<lparr>progress_percent := Math_round (progress * 100)\<rparr>
      in case status of
           None \<Rightarrow> st1
         | Some s \<Rightarrow> st1\<lparr>loading_status := s\<rparr>)"

definition showLoading :: "string \<Rightarrow> loader \<Rightarrow> loader" where
  "showLoading filename st =
     (updateProgress 0 (Some Iniciando) (st\<lparr>loading_filename := filename\<rparr>))
       \<lparr>overlay_display := DisplayFlex\<rparr>"

definition hideLoading :: "loader \<Rightarrow> loader" where
  "hideLoading st = st\<lparr>overlay_display := DisplayNone\<rparr>"

text \<open>\<open>s.replace(pat, rep)\<close> with a string pattern: the first occurrence only.\<close>

fun replace_first :: "string \<Rightarrow> string \<Rightarrow> string \<Rightarrow> string" where
  "replace_first pat rep [] = (if pat = [] then rep else [])"
| "replace_first pat rep (c # cs) =
     (if take (length pat) (c # cs) = pat then rep @ drop (length pat) (c # cs)
      else c # replace_first pat rep cs)"

text \<open>The \<open>progressCallback\<close> handed to the library: maps the progress to 10%..95%.\<close>

definition progressCallback :: "real \<Rightarrow> loader \<Rightarrow> loader" where
  "progressCallback progress st =
     updateProgress (0.1 + progress * 0.85) (Some ConvertendoGeometrias) st"

text \<open>The \<open>catch\<close> and \<open>finally\<close> blocks of \<open>loadIfcFromFile\<close>.\<close>

definition load_catch :: "loader \<Rightarrow> loader" where
  "load_catch st = st\<lparr>alerts := alerts st @ [ErroAoCarregarIFC]\<rparr>"

definition load_finally :: "loader \<Rightarrow> loader" where
  "load_finally st = (hideLoading st)\<lparr>isLoading := False\<rparr>"

text \<open>
  \<open>loadIfcFromFile\<close> is an async function with three suspension points: the read of
  the file, the library load and a 500 ms timer. Its body is cut at these points.

  \<open>load_start\<close>: from the guard to \<open>await file.arrayBuffer()\<close>.
  \<open>load_read\<close>: from the result of the read to \<open>await ifcLoader.load(...)\<close>; a
  rejected read goes to \<open>catch\<close> and \<open>finally\<close>.
  \<open>load_progress\<close>: the progress reports of the load. A resolved load sets 100%
  (\<open>load_done\<close>) and waits for the timer, after which \<open>load_finally\<close> runs; a
  rejected load goes to \<open>catch\<close> and \<open>finally\<close>.
\<close>

definition load_start :: "js_file \<Rightarrow> loader \<Rightarrow> loader" where
  "load_start f st =
     updateProgress 0.05 (Some LendoArquivo)
       (showLoading (file_name f) (st\<lparr>isLoading := True\<rparr>))"

definition the_load_call :: "js_file \<Rightarrow> byte list \<Rightarrow> load_call" where
  "the_load_call f data =
     \<lparr>buffer = data, coordinate = False,
      model_name = replace_first ''.ifc'' '''' (file_name f)\<rparr>"

definition load_read :: "js_file \<Rightarrow> byte list \<Rightarrow> loader \<Rightarrow> loader" where
  "load_read f data st =
     (let st1 = updateProgress 0.1 (Some ProcessandoIFC) st
      in st1\<lparr>ifcLoader_calls := ifcLoader_calls st1 @ [the_load_call f data]\<rparr>)"

definition load_progress :: "load_outcome \<Rightarrow> loader \<Rightarrow> loader" where
  "load_progress out st = fold progressCallback (progress_reports out) st"

definition load_done :: "loader \<Rightarrow> loader" where
  "load_done st = updateProgress 1 (Some Concluido) st"

text \<open>
  The whole call, run to completion with no other event in between. The library is the
  parameter \<open>lib\<close>: the outcome of \<open>ifcLoader.load\<close> for the call it receives.
\<close>

definition loadIfcFromFile :: "(load_call \<Rightarrow> load_outcome) \<Rightarrow> js_file \<Rightarrow> loader \<Rightarrow> loader" where
  "loadIfcFromFile lib f st =
     (if isLoading st then st
      else
        let st1 = load_start f st
        in (case arrayBuffer f of
              Inl e \<Rightarrow> load_finally (load_catch st1)
            | Inr data \<Rightarrow>
                (let st2 = load_read f data st1;
                     out = lib (the_load_call f data);
                     st3 = load_progress out st2
                 in (case load_result out of
                       Inl e \<Rightarrow> load_finally (load_catch st3)
                     | Inr u \<Rightarrow> load_finally (load_done st3)))))"

text \<open>
  The \<open>change\<close> handler of the file input: \<open>input.files\<close> is \<open>None\<close> when null.
\<close>

definition onFileInput ::
  "(load_call \<Rightarrow> load_outcome) \<Rightarrow> js_file list option \<Rightarrow> loader \<Rightarrow> loader" where
  "onFileInput lib files st =
     (case files of
        Some (f # fs) \<Rightarrow> loadIfcFromFile lib f st
      | _ \<Rightarrow> st)"

text \<open>
  \<open>toLowerCase\<close> on the ASCII letters, which is all the test for the suffix \<open>.ifc\<close>
  can see; \<open>endsWith\<close>.
\<close>

definition toLowerCase_char :: "char \<Rightarrow> char" where
  "toLowerCase_char c =
     (let n = (of_char c :: nat)
      in if 65 \<le> n \<and> n \<le> 90 then char_of (n + 32) else c)"

definition toLowerCase :: "string \<Rightarrow> string" where
  "toLowerCase s = map toLowerCase_char s"

definition endsWith :: "string \<Rightarrow> string \<Rightarrow> bool" where
  "endsWith s suffix =
     (length suffix \<le> length s \<and> drop (length s - length suffix) s = suffix)"

text \<open>
  The \<open>dragover\<close> and \<open>drop\<close> handlers of the container; \<open>e.dataTransfer?.files\<close> is
  \<open>None\<close> when missing.
\<close>

definition onDragOver :: "loader \<Rightarrow> loader" where
  "onDragOver st = (if \<not> dropZone st then st\<lparr>dropZone := True\<rparr> else st)"

definition onDrop ::
  "(load_call \<Rightarrow> load_outcome) \<Rightarrow> js_file list option \<Rightarrow> loader \<Rightarrow> loader" where
  "onDrop lib files st =
     (let st1 = (if dropZone st then st\<lparr>dropZone := False\<rparr> else st)
      in case files of
           Some (f # fs) \<Rightarrow>
             if endsWith (toLowerCase (file_name f)) ''.ifc'' then loadIfcFromFile lib f st1
             else st1\<lparr>alerts := alerts st1 @ [SolteApenasArquivosIfc]\<rparr>
         | _ \<Rightarrow> st1)"

subsection \<open>Load requests interleaved with a load in flight\<close>

text \<open>
  While a call of \<open>loadIfcFromFile\<close> is suspended at one of its \<open>await\<close>s, the page
  goes on receiving events, among them further load requests. A suspended call is a
  value of \<open>pending\<close>: where it waits, and the file it was called with. The machine
  keeps the \<open>loader\<close> and the list of suspended calls; an event either is a new request
  or resumes the suspended call at an index.
\<close>

datatype pending = AwaitRead js_file | AwaitLoad js_file | AwaitTimer js_file

datatype load_event =
  Request js_file
  | ReadSettles nat
  | LoadSettles nat load_outcome
  | TimerFires nat

definition remove_at :: "nat \<Rightarrow> 'a list \<Rightarrow> 'a list" where
  "remove_at k xs = take k xs @ drop (Suc k) xs"

fun load_step :: "load_event \<Rightarrow> loader \<times> pending list \<Rightarrow> loader \<times> pending list" where
  "load_step (Request f) (st, ps) =
     (if isLoading st then (st, ps) else (load_start f st, ps @ [AwaitRead f]))"
| "load_step (ReadSettles k) (st, ps) =
     (if k < length ps then
        (case ps ! k of
           AwaitRead f \<Rightarrow>
             (case arrayBuffer f of
                Inl e \<Rightarrow> (load_finally (load_catch st), remove_at k ps)
              | Inr data \<Rightarrow> (load_read f data st, ps[k := AwaitLoad f]))
         | _ \<Rightarrow> (st, ps))
      else (st, ps))"
| "load_step (LoadSettles k out) (st, ps) =
     (if k < length ps then
        (case ps ! k of
           AwaitLoad f \<Rightarrow>
             (case load_result out of
                Inl e \<Rightarrow> (load_finally (load_catch (load_progress out st)), remove_at k ps)
              | Inr u \<Rightarrow> (load_done (load_progress out st), ps[k := AwaitTimer f]))
         | _ \<Rightarrow> (st, ps))
      else (st, ps))"
| "load_step (TimerFires k) (st, ps) =
     (if k < length ps then
        (case ps ! k of
           AwaitTimer f \<Rightarrow> (load_finally st, remove_at k ps)
         | _ \<Rightarrow> (st, ps))
      else (st, ps))"

definition load_run :: "load_event list \<Rightarrow> loader \<times> pending list \<Rightarrow> loader \<times> pending list" where
  "load_run evs c = fold load_step evs c"

text \<open>
  The invariant of the interleaved machine: at most one call is suspended, and
  \<open>isLoading\<close> is set exactly while one is.
\<close>

definition load_inv :: "loader \<times> pending list \<Rightarrow> bool" where
  "load_inv c \<longleftrightarrow> length (snd c) \<le> 1 \<and> (isLoading (fst c) \<longleftrightarrow> snd c \<noteq> [])"

text \<open>The loader as the module creates it: not loading, the overlay hidden.\<close>

definition loader_init :: loader where
  "loader_init =
     \<lparr>isLoading = False, overlay_display = DisplayNone, loading_filename = [],
      progress_percent = 0, loading_status = ProcessandoArquivoIFC, alerts = [],
      ifcLoader_calls = [], dropZone = False\<rparr>"

text \<open>
  The promise created in the handler of \<open>fragments.list.onItemSet\<close>: \<open>waitFrames\<close> runs
  once per animation frame, counts the frame, and either asks for another frame or
  resolves the promise.
\<close>

datatype frame_wait = RequestAnimationFrame nat | Resolved nat

definition waitFrames :: "nat \<Rightarrow> frame_wait" where
  "waitFrames frameCount =
     (let frameCount' = frameCount + 1
      in if frameCount' < 3 then RequestAnimationFrame frameCount' else Resolved frameCount')"

text \<open>The promise after \<open>n\<close> animation frames, starting with \<open>frameCount = 0\<close>.\<close>

fun after_frames :: "nat \<Rightarrow> frame_wait" where
  "after_frames 0 = RequestAnimationFrame 0"
| "after_frames (Suc n) =
     (case after_frames n of
        RequestAnimationFrame c \<Rightarrow> waitFrames c
      | Resolved c \<Rightarrow> Resolved c)"

subsection \<open>Vectors and boxes of the 3D engine\<close>

datatype vec3 = Vector3 (vx: real) (vy: real) (vz: real)

record box3 =
  box_min :: vec3
  box_max :: vec3

text \<open>
  The operations of the 3D engine on \<open>Vector3\<close> and \<open>Box3\<close> that the viewer calls, as
  the engine defines them: a box is empty when its maximum is below its minimum on some
  axis; the centre and the size of an empty box are the zero vector.
\<close>

definition vec_add :: "vec3 \<Rightarrow> vec3 \<Rightarrow> vec3" where
  "vec_add a b = Vector3 (vx a + vx b) (vy a + vy b) (vz a + vz b)"

definition vec_sub :: "vec3 \<Rightarrow> vec3 \<Rightarrow> vec3" where
  "vec_sub a b = Vector3 (vx a - vx b) (vy a - vy b) (vz a - vz b)"

definition multiplyScalar :: "vec3 \<Rightarrow> real \<Rightarrow> vec3" where
  "multiplyScalar a k = Vector3 (vx a * k) (vy a * k) (vz a * k)"

definition vec_length :: "vec3 \<Rightarrow> real" where
  "vec_length a = sqrt (vx a * vx a + vy a * vy a + vz a * vz a)"

definition normalize :: "vec3 \<Rightarrow> vec3" where
  "normalize a =
     (let l = vec_length a; d = (if l = 0 then 1 else l)
      in Vector3 (vx a / d) (vy a / d) (vz a / d))"

definition isEmpty :: "box3 \<Rightarrow> bool" where
  "isEmpty b \<longleftrightarrow>
     vx (box_max b) < vx (box_min b) \<or> vy (box_max b) < vy (box_min b)
     \<or> vz (box_max b) < vz (box_min b)"

definition getCenter :: "box3 \<Rightarrow> vec3" where
  "getCenter b =
     (if isEmpty b then Vector3 0 0 0
      else multiplyScalar (vec_add (box_min b) (box_max b)) 0.5)"

definition getSize :: "box3 \<Rightarrow> vec3" where
  "getSize b = (if isEmpty b then Vector3 0 0 0 else vec_sub (box_max b) (box_min b))"

subsection \<open>The state of the viewer\<close>

text \<open>
  The attributes of one item as \<open>model.getItemsData\<close> returns them. The viewer reads
  \<open>Name\<close> and \<open>Elevation\<close>, each behind the same four-fold test (the key is present, the
  attribute is truthy, it is an object, it has the key \<open>value\<close>); \<open>None\<close> stands for an
  attribute that fails the test, \<open>Some v\<close> for one that passes it with \<open>value\<close> \<open>v\<close>.
\<close>

record item_attributes =
  attr_Name :: "string option"
  attr_Elevation :: "real option"

text \<open>
  A fragments model: the Y position of its 3D object, which the viewer writes; and what
  the library answers for it: \<open>getCoordinates()\<close> (its second component),
  \<open>getItemsOfCategories([/BUILDINGSTOREY/])\<close> (a record from category to local ids),
  \<open>getItemsData(ids)\<close>, the box that \<open>Box3.setFromObject(model.object)\<close> computes,
  and the visibility of its items as \<open>setVisible\<close> leaves it.
\<close>

record fragments_model =
  position_y :: real
  getCoordinates :: "js_error + real"
  getItemsOfCategories :: "js_error + (string \<times> nat list) list"
  getItemsData :: "nat list \<Rightarrow> js_error + item_attributes list"
  object_box :: box3
  item_visible :: "nat \<Rightarrow> bool"

text \<open>
  The id of a view is a string. The ids the viewer builds itself come from the template
  \<open>Nivel ${i + 1} (${elevation.toFixed(1)}m)\<close> (with an accented i) and the constant
  \<open>Vista Superior (Topo)\<close>; the constructors keep the interpolated values (the
  elevation unrounded).
\<close>

datatype view_id = StoreyView string | Nivel nat real | VistaSuperiorTopo

record view =
  view_id :: view_id
  view_normal :: vec3
  view_point :: vec3

text \<open>The invisible box mesh the red \<open>BoxHelper\<close> is drawn around.\<close>

record box_helper =
  helper_center :: vec3
  helper_size :: vec3

text \<open>The calls into the library and the 3D engine that the modelled functions make.\<close>

datatype lib_call =
  ModelUseCamera string
  | SceneAddModel string
  | ClassifierByIfcBuildingStorey
  | ClassifierByCategory
  | ViewsListDelete view_id
  | ViewsCreateFromIfcStoreys real
  | ViewsCreate vec3 vec3 view_id
  | CameraSetLookAt vec3 vec3 bool
  | CameraFitToSphere string bool
  | ClipperCreate
  | ClipperCreateFromNormalAndCoplanarPoint vec3 vec3
  | SceneRemove box_helper
  | SceneAdd box_helper
  | FragmentsCoreUpdate bool

text \<open>
  One classification of the classifier (\<open>classifier.list.get("Storeys")\<close>): the groups
  in insertion order, each with its name and with \<open>Object.values(await groupData.get())\<close>,
  one collection of local ids per model.
\<close>

type_synonym classification = "(string \<times> nat list list) list"

record viewer =
  models :: "(string \<times> fragments_model) list"
  baseElevationOffset :: real
  storeyData :: "item_attributes list"
  grid_level_dropdown :: "string list"
  grid_position_y :: real
  floorViews :: "view list"
  floor_dropdown :: "view_id list"
  classifier_storeys :: "classification option"
  classifier_categories :: "classification option"
  filter_storeys :: "string \<rightharpoonup> bool"
  filter_categories :: "string \<rightharpoonup> bool"
  storey_checkboxes :: "(string \<times> bool) list option"
  category_checkboxes :: "(string \<times> bool) list option"
  clippingBoxHelper :: "box_helper option"
  viewer_alerts :: "alert_text list"
  lib_calls :: "lib_call list"

subsection \<open>Ground-floor normalisation\<close>

text \<open>
  The body of the loop of \<open>adjustModelToLevel0\<close> over the items; \<open>minElevation\<close> starts
  as \<open>Infinity\<close>, which is \<open>None\<close> here.
\<close>

definition min_step :: "item_attributes \<Rightarrow> real option \<times> string \<Rightarrow> real option \<times> string" where
  "min_step attributes acc =
     (case acc of (minElevation, groundFloorName) \<Rightarrow>
        (case attr_Elevation attributes of
           None \<Rightarrow> (minElevation, groundFloorName)
         | Some elevation \<Rightarrow>
             if (case minElevation of None \<Rightarrow> True | Some m \<Rightarrow> elevation < m)
             then (Some elevation,
                   (case attr_Name attributes of
                      Some n \<Rightarrow> n
                    | None \<Rightarrow> groundFloorName))
             else (minElevation, groundFloorName)))"

text \<open>
  \<open>adjustModelToLevel0(model)\<close>: every library call is inside the \<open>try\<close>, and the
  \<open>catch\<close> only warns, so a rejected call leaves the model and the viewer as they were.
\<close>

definition adjustModelToLevel0 :: "fragments_model \<Rightarrow> viewer \<Rightarrow> fragments_model \<times> viewer" where
  "adjustModelToLevel0 m st =
     (case getCoordinates m of
        Inl e \<Rightarrow> (m, st)
      | Inr coordHeight \<Rightarrow>
          (case getItemsOfCategories m of
             Inl e \<Rightarrow> (m, st)
           | Inr storeys \<Rightarrow>
               let localIds = concat (map snd storeys)
               in if length localIds = 0 then (m, st)
                  else
                    (case getItemsData m localIds of
                       Inl e \<Rightarrow> (m, st)
                     | Inr data \<Rightarrow>
                         (case fst (fold min_step data (None, [])) of
                            None \<Rightarrow> (m, st)
                          | Some minElevation \<Rightarrow>
                              let totalOffset = coordHeight + minElevation
                              in (m\<lparr>position_y := - totalOffset\<rparr>,
                                  st\<lparr>baseElevationOffset := minElevation\<rparr>)))))"

definition getStoreyElevation :: "string \<Rightarrow> viewer \<Rightarrow> real" where
  "getStoreyElevation name st =
     (case find (\<lambda>attributes. attr_Name attributes = Some name) (storeyData st) of
        None \<Rightarrow> 0
      | Some storey \<Rightarrow>
          (case attr_Elevation storey of
             None \<Rightarrow> 0
           | Some storeyElevation \<Rightarrow> storeyElevation - baseElevationOffset st))"

definition updateGridLevelDropdown :: "viewer \<Rightarrow> viewer" where
  "updateGridLevelDropdown st =
     st\<lparr>grid_level_dropdown := List.map_filter attr_Name (storeyData st)\<rparr>"

text \<open>The inner loop of \<open>updateStoreyData\<close>: keeps the first item of every name.\<close>

definition add_unique ::
  "item_attributes \<Rightarrow> item_attributes list \<times> string list \<Rightarrow> item_attributes list \<times> string list" where
  "add_unique attributes acc =
     (case acc of (allStoreyData, seenNames) \<Rightarrow>
        (case attr_Name attributes of
           None \<Rightarrow> (allStoreyData, seenNames)
         | Some name \<Rightarrow>
             if name \<in> set seenNames then (allStoreyData, seenNames)
             else (allStoreyData @ [attributes], seenNames @ [name])))"

fun collect_storeys ::
  "fragments_model list \<Rightarrow> item_attributes list \<times> string list \<Rightarrow> js_error + item_attributes list" where
  "collect_storeys [] acc = Inr (fst acc)"
| "collect_storeys (m # ms) acc =
     (case getItemsOfCategories m of
        Inl e \<Rightarrow> Inl e
      | Inr storeys \<Rightarrow>
          (case getItemsData m (concat (map snd storeys)) of
             Inl e \<Rightarrow> Inl e
           | Inr data \<Rightarrow> collect_storeys ms (fold add_unique data acc)))"

definition elevation_or_0 :: "item_attributes \<Rightarrow> real" where
  "elevation_or_0 a = (case attr_Elevation a of Some e \<Rightarrow> e | None \<Rightarrow> 0)"

text \<open>
  \<open>updateStoreyData\<close>: the storeys of all models, first of every name, sorted by
  elevation (\<open>Array.prototype.sort\<close> is stable, as \<open>sort_key\<close> is); on an error the
  data is emptied.
\<close>

definition updateStoreyData :: "viewer \<Rightarrow> viewer" where
  "updateStoreyData st =
     (if length (models st) = 0 then updateGridLevelDropdown (st\<lparr>storeyData := []\<rparr>)
      else
        (case collect_storeys (map snd (models st)) ([], []) of
           Inr allStoreyData \<Rightarrow>
             updateGridLevelDropdown (st\<lparr>storeyData := sort_key elevation_or_0 allStoreyData\<rparr>)
         | Inl e \<Rightarrow> updateGridLevelDropdown (st\<lparr>storeyData := []\<rparr>)))"

text \<open>\<open>onGridLevelChange\<close>, with the value of the dropdown as its argument.\<close>

definition onGridLevelChange :: "string \<Rightarrow> viewer \<Rightarrow> viewer" where
  "onGridLevelChange level st =
     (if level = [] then st\<lparr>grid_position_y := 0\<rparr>
      else st\<lparr>grid_position_y := getStoreyElevation level st\<rparr>)"

subsection \<open>Framing the camera\<close>

text \<open>
  \<open>frameModel(model)\<close>, for the model with id \<open>modelId\<close>. The parameter \<open>throws\<close> says
  for a call into the camera controls whether it throws (\<open>Some e\<close>) or returns. The
  result is the list of calls made, and the exception that leaves the function, if any:
  the \<open>catch\<close> block falls back to \<open>fitToSphere\<close>, whose own exception is not caught.
\<close>

definition frame_fallback ::
  "(lib_call \<Rightarrow> js_error option) \<Rightarrow> string \<Rightarrow> lib_call list \<Rightarrow> lib_call list \<times> js_error option" where
  "frame_fallback throws modelId calls =
     (calls @ [CameraFitToSphere modelId True], throws (CameraFitToSphere modelId True))"

definition frame_call ::
  "(lib_call \<Rightarrow> js_error option) \<Rightarrow> string \<Rightarrow> lib_call \<Rightarrow> lib_call list \<times> js_error option" where
  "frame_call throws modelId c =
     (case throws c of
        None \<Rightarrow> ([c], None)
      | Some e \<Rightarrow> frame_fallback throws modelId [c])"

definition frameModel ::
  "(lib_call \<Rightarrow> js_error option) \<Rightarrow> string \<times> fragments_model \<Rightarrow> lib_call list \<times> js_error option" where
  "frameModel throws idm =
     (case idm of (modelId, m) \<Rightarrow>
        let box = object_box m
        in if isEmpty box then ([], None)
           else
             let size = getSize box;
                 center = getCenter box
             in if vec_length size < 0.1 \<or> vec_length size > 10000
                then frame_call throws modelId (CameraFitToSphere modelId True)
                else
                  let maxDim = max (max (vx size) (vy size)) (vz size);
                      distance = maxDim * 1.8;
                      offset = Vector3 (distance * 0.6) (distance * 0.4) (distance * 0.8);
                      cameraPosition = vec_add center offset
                  in frame_call throws modelId (CameraSetLookAt cameraPosition center True))"

text \<open>
  The older handler of \<open>fragments.list.onItemSet\<close> in \<open>main.ts\<close> frames the model by
  one call; these are its calls into the library before it sets the timer for the floor
  plans and the classification.
\<close>

definition onItemSet_main :: "string \<Rightarrow> lib_call list" where
  "onItemSet_main modelId =
     [ModelUseCamera modelId, SceneAddModel modelId, FragmentsCoreUpdate True,
      CameraFitToSphere modelId True]"

subsection \<open>Floor plans\<close>

definition updateFloorDropdown :: "viewer \<Rightarrow> viewer" where
  "updateFloorDropdown st = st\<lparr>floor_dropdown := map view_id (floorViews st)\<rparr>"

text \<open>
  The views that \<open>generateFloorPlans\<close> builds when the library delivered none: one
  section per assumed floor of about 3 m, and one above the top of the box.
\<close>

definition manual_views :: "box3 \<Rightarrow> view list" where
  "manual_views box =
     (let center = getCenter box;
          size = getSize box;
          height = vy size;
          numFloors = max 1 \<lceil>height / 3\<rceil>;
          floorHeight = height / real_of_int numFloors;
          floor = (\<lambda>i.
            let elevation = vy (box_min box) + (real i * floorHeight) + (floorHeight / 2)
            in \<lparr>view_id = Nivel (i + 1) elevation,
                view_normal = Vector3 0 (- 1) 0,
                view_point = Vector3 (vx center) (elevation + 1.5) (vz center)\<rparr>);
          topView =
            \<lparr>view_id = VistaSuperiorTopo,
             view_normal = Vector3 0 (- 1) 0,
             view_point = Vector3 (vx center) (vy (box_max box) + 2) (vz center)\<rparr>
      in map floor [0 ..< nat numFloors] @ [topView])"

definition views_create :: "view \<Rightarrow> lib_call" where
  "views_create v = ViewsCreate (view_normal v) (view_point v) (view_id v)"

text \<open>
  \<open>generateFloorPlans\<close>. The parameter is what \<open>views.createFromIfcStoreys\<close> resolves
  to or rejects with. Deleting an old view may throw; the \<open>catch\<close> only warns, so the
  loop goes on either way. \<open>views.create\<close> returns the view it was asked for. The
  groups that the call of \<open>byIfcBuildingStorey\<close> leaves in the classifier are read here
  for a console message only; they enter the state with \<open>processClassifications\<close>.
\<close>

definition generateFloorPlans :: "js_error + view list \<Rightarrow> viewer \<Rightarrow> viewer" where
  "generateFloorPlans createFromIfcStoreys st =
     (case models st of
        [] \<Rightarrow> st
      | idm # rest \<Rightarrow>
          let calls1 = ClassifierByIfcBuildingStorey # map (ViewsListDelete \<circ> view_id) (floorViews st);
              box = object_box (snd idm);
              ifcViews =
                (case createFromIfcStoreys of
                   Inr vs \<Rightarrow> (if length vs > 0 then vs else [])
                 | Inl e \<Rightarrow> []);
              calls2 = [ViewsCreateFromIfcStoreys 1.5];
              manual = (if length ifcViews = 0 then manual_views box else []);
              st1 = st\<lparr>floorViews := ifcViews @ manual,
                      lib_calls := lib_calls st @ calls1 @ calls2 @ map views_create manual\<rparr>
          in updateFloorDropdown (updateFloorDropdown st1))"

subsection \<open>Classification and filters\<close>

text \<open>
  The loop of \<open>updateFilterUI\<close> over the group names of one classification: a name not
  yet in the filter map is entered as checked, and a checkbox is built for every name.
\<close>

fun filter_boxes ::
  "string list \<Rightarrow> (string \<rightharpoonup> bool) \<Rightarrow> (string \<times> bool) list \<times> (string \<rightharpoonup> bool)" where
  "filter_boxes [] fs = ([], fs)"
| "filter_boxes (n # ns) fs =
     (let fs1 = (if fs n = None then fs(n \<mapsto> True) else fs);
          box = (n, fs1 n = Some True);
          r = filter_boxes ns fs1
      in (box # fst r, snd r))"

definition updateFilterUI :: "viewer \<Rightarrow> viewer" where
  "updateFilterUI st =
     (let st1 =
            (case classifier_storeys st of
               Some storeys \<Rightarrow>
                 let r = filter_boxes (map fst storeys) (filter_storeys st)
                 in st\<lparr>storey_checkboxes := Some (fst r), filter_storeys := snd r\<rparr>
             | None \<Rightarrow> st\<lparr>storey_checkboxes := None\<rparr>)
      in case classifier_categories st1 of
           Some categories \<Rightarrow>
             let r = filter_boxes (map fst categories) (filter_categories st1)
             in st1\<lparr>category_checkboxes := Some (fst r), filter_categories := snd r\<rparr>
         | None \<Rightarrow> st1\<lparr>category_checkboxes := None\<rparr>)"

text \<open>
  \<open>processClassifications\<close>. The two parameters are what \<open>classifier.list\<close> holds
  under \<open>Storeys\<close> and \<open>Categories\<close> once \<open>byIfcBuildingStorey\<close> and \<open>byCategory\<close> have
  run: the groups are the library's, the viewer only reads them.
\<close>

definition processClassifications ::
  "classification option \<Rightarrow> classification option \<Rightarrow> viewer \<Rightarrow> viewer" where
  "processClassifications byStorey byCategory st =
     (case models st of
        [] \<Rightarrow> st
      | idm # rest \<Rightarrow>
          updateFilterUI
            (st\<lparr>classifier_storeys := byStorey,
                classifier_categories := byCategory,
                lib_calls := lib_calls st @ [ClassifierByIfcBuildingStorey, ClassifierByCategory]\<rparr>))"

text \<open>\<open>model.setVisible(ids, visible)\<close> on the visibility of the items of a model.\<close>

definition setVisible :: "nat list \<Rightarrow> bool \<Rightarrow> (nat \<Rightarrow> bool) \<Rightarrow> (nat \<Rightarrow> bool)" where
  "setVisible ids visible vis = (\<lambda>i. if i \<in> set ids then visible else vis i)"

text \<open>
  The two hiding loops of \<open>applyFilters\<close>: a group whose name is not mapped to
  \<open>true\<close> in the filter map (unchecked, or unknown to the map) has the items of all its
  collections hidden.
\<close>

definition hide_group ::
  "(string \<rightharpoonup> bool) \<Rightarrow> string \<times> nat list list \<Rightarrow> (nat \<Rightarrow> bool) \<Rightarrow> (nat \<Rightarrow> bool)" where
  "hide_group fs g vis =
     (if fs (fst g) \<noteq> Some True then fold (\<lambda>ids. setVisible ids False) (snd g) vis
      else vis)"

definition hide_unchecked ::
  "(string \<rightharpoonup> bool) \<Rightarrow> classification option \<Rightarrow> (nat \<Rightarrow> bool) \<Rightarrow> (nat \<Rightarrow> bool)" where
  "hide_unchecked fs cl vis =
     (case cl of None \<Rightarrow> vis | Some groups \<Rightarrow> fold (hide_group fs) groups vis)"

definition applyFilters :: "viewer \<Rightarrow> viewer" where
  "applyFilters st =
     (case models st of
        [] \<Rightarrow> st
      | idm # rest \<Rightarrow>
          let storeys = classifier_storeys st;
              categories = classifier_categories st;
              allIds = (case storeys of
                          None \<Rightarrow> []
                        | Some groups \<Rightarrow> concat (map (concat \<circ> snd) groups));
              vis0 = item_visible (snd idm);
              vis1 = (if length allIds > 0 then setVisible allIds True vis0 else vis0);
              vis2 = hide_unchecked (filter_storeys st) storeys vis1;
              vis3 = hide_unchecked (filter_categories st) categories vis2
          in st\<lparr>models := (fst idm, (snd idm)\<lparr>item_visible := vis3\<rparr>) # rest,
                lib_calls := lib_calls st @ [FragmentsCoreUpdate True]\<rparr>)"

subsection \<open>The clipping box\<close>

definition clipping_planes :: "box3 \<Rightarrow> (vec3 \<times> vec3) list" where
  "clipping_planes box =
     (let center = getCenter box;
          margin = 0.5
      in [(Vector3 0 (- 1) 0, Vector3 (vx center) (vy (box_max box) + margin) (vz center)),
          (Vector3 0 1 0, Vector3 (vx center) (vy (box_min box) - margin) (vz center)),
          (Vector3 0 0 (- 1), Vector3 (vx center) (vy center) (vz (box_max box) + margin)),
          (Vector3 0 0 1, Vector3 (vx center) (vy center) (vz (box_min box) - margin)),
          (Vector3 (- 1) 0 0, Vector3 (vx (box_max box) + margin) (vy center) (vz center)),
          (Vector3 1 0 0, Vector3 (vx (box_min box) - margin) (vy center) (vz center))])"

definition createClippingBox :: "viewer \<Rightarrow> viewer" where
  "createClippingBox st =
     (case models st of
        [] \<Rightarrow> st\<lparr>viewer_alerts := viewer_alerts st @ [CarregueUmModeloPrimeiro]\<rparr>
      | idm # rest \<Rightarrow>
          let box = object_box (snd idm);
              center = getCenter box;
              size = getSize box;
              margin = 0.5;
              removed = (case clippingBoxHelper st of
                           Some h \<Rightarrow> [SceneRemove h]
                         | None \<Rightarrow> []);
              helper = \<lparr>helper_center = center,
                        helper_size = Vector3 (vx size + margin * 2) (vy size + margin * 2)
                                        (vz size + margin * 2)\<rparr>
          in st\<lparr>clippingBoxHelper := Some helper,
                lib_calls := lib_calls st @ removed @ [SceneAdd helper]
                  @ map (\<lambda>p. ClipperCreateFromNormalAndCoplanarPoint (fst p) (snd p))
                      (clipping_planes box)\<rparr>)"

text \<open>
  The calls into the clipper made by the double click on the container: in clipping
  mode it is \<open>clipper.create(world)\<close>; otherwise the handler frames the object under
  the cursor and makes no call into the clipper.
\<close>

definition onDblClick_clipper :: "bool \<Rightarrow> lib_call list" where
  "onDblClick_clipper clippingMode = (if clippingMode then [ClipperCreate] else [])"

subsection \<open>Scenes, cameras and renderers\<close>

text \<open>
  The scenes, cameras and renderers that the module constructs with \<open>new\<close>: classes of
  the component library for the world, and classes of the 3D engine for the view cube.
\<close>

datatype rendering_object =
  OBC_SimpleScene
  | OBCF_PostproductionRenderer
  | OBC_OrthoPerspectiveCamera
  | THREE_Scene
  | THREE_OrthographicCamera real real real real real real
  | THREE_WebGLRenderer bool bool

definition world_setup :: "rendering_object list" where
  "world_setup = [OBC_SimpleScene, OBCF_PostproductionRenderer, OBC_OrthoPerspectiveCamera]"

text \<open>What \<open>world.camera.controls\<close> answers to \<open>getPosition\<close> and \<open>getTarget\<close>.\<close>

record camera_controls =
  controls_position :: vec3
  controls_target :: vec3

text \<open>
  The view cube: the scenes, cameras and renderers constructed for it, the position of
  its camera, and the number of calls of \<open>cubeRenderer.render(cubeScene, cubeCamera)\<close>.
\<close>

record view_cube =
  cube_constructed :: "rendering_object list"
  cubeCamera_position :: vec3
  cube_render_calls :: nat

definition updateViewCube :: "camera_controls \<Rightarrow> view_cube \<Rightarrow> view_cube" where
  "updateViewCube controls vc =
     (let direction = normalize (vec_sub (controls_position controls) (controls_target controls))
      in vc\<lparr>cubeCamera_position := multiplyScalar direction 5,
            cube_render_calls := cube_render_calls vc + 1\<rparr>)"

text \<open>
  \<open>createViewCube\<close>: constructs the scene, the orthographic camera and the WebGL
  renderer (with \<open>alpha\<close> and \<open>antialias\<close>), registers \<open>updateViewCube\<close> on
  \<open>world.renderer.onAfterUpdate\<close> and renders once.
\<close>

definition createViewCube :: "camera_controls \<Rightarrow> view_cube" where
  "createViewCube controls =
     updateViewCube controls
       \<lparr>cube_constructed =
          [THREE_Scene, THREE_OrthographicCamera (- 1.5) 1.5 1.5 (- 1.5) 0.1 100,
           THREE_WebGLRenderer True True],
        cubeCamera_position = Vector3 3 3 3,
        cube_render_calls = 0\<rparr>"

text \<open>
  The callback registered on \<open>onAfterUpdate\<close> runs after every update of the library's
  renderer; the list holds the state of the camera controls at each of these updates.
\<close>

definition onAfterUpdate :: "camera_controls list \<Rightarrow> view_cube \<Rightarrow> view_cube" where
  "onAfterUpdate updates vc = fold updateViewCube updates vc"

subsection \<open>Concrete inputs\<close>

text \<open>
  Two readable files, one whose read is rejected, a library whose load resolves after
  two progress reports and one whose load rejects.
\<close>

definition example_file :: js_file where
  "example_file = \<lparr>file_name = ''casa.ifc'', arrayBuffer = Inr [73, 83, 79]\<rparr>"

definition other_file :: js_file where
  "other_file = \<lparr>file_name = ''Torre.IFC'', arrayBuffer = Inr [45, 49]\<rparr>"

definition unreadable_file :: js_file where
  "unreadable_file =
     \<lparr>file_name = ''x.ifc'', arrayBuffer = Inl (JsError ''NotReadableError'')\<rparr>"

definition lib_resolves :: "load_call \<Rightarrow> load_outcome" where
  "lib_resolves c = \<lparr>progress_reports = [0.5, 1], load_result = Inr ()\<rparr>"

definition lib_rejects :: "load_call \<Rightarrow> load_outcome" where
  "lib_rejects c = \<lparr>progress_reports = [0.5], load_result = Inl (JsError ''parse'')\<rparr>"

text \<open>
  A model of 10 by 7 by 4 with three storeys, one of them without an elevation, whose
  item 5 is hidden; and a viewer holding this model, with two storey groups and two
  category groups, one filter of each kind unchecked.
\<close>

definition example_box :: box3 where
  "example_box = \<lparr>box_min = Vector3 0 0 0, box_max = Vector3 10 7 4\<rparr>"

definition example_storeys :: "item_attributes list" where
  "example_storeys =
     [\<lparr>attr_Name = Some ''Terreo'', attr_Elevation = Some 3\<rparr>,
      \<lparr>attr_Name = Some ''Subsolo'', attr_Elevation = Some (- 3)\<rparr>,
      \<lparr>attr_Name = Some ''Cobertura'', attr_Elevation = None\<rparr>]"

definition example_model :: fragments_model where
  "example_model =
     \<lparr>position_y = 0,
      getCoordinates = Inr 100,
      getItemsOfCategories = Inr [(''IFCBUILDINGSTOREY'', [5, 6, 7])],
      getItemsData = (\<lambda>ids. Inr example_storeys),
      object_box = example_box,
      item_visible = (\<lambda>i. i \<noteq> 5)\<rparr>"

definition example_storey_groups :: classification where
  "example_storey_groups = [(''Terreo'', [[1, 2]]), (''Cobertura'', [[3]])]"

definition example_category_groups :: classification where
  "example_category_groups = [(''IFCWALL'', [[1, 3]]), (''IFCSPACE'', [[2, 4]])]"

definition example_viewer :: viewer where
  "example_viewer =
     \<lparr>models = [(''casa'', example_model)],
      baseElevationOffset = 0,
      storeyData = [],
      grid_level_dropdown = [],
      grid_position_y = 0,
      floorViews = [],
      floor_dropdown = [],
      classifier_storeys = Some example_storey_groups,
      classifier_categories = Some example_category_groups,
      filter_storeys = [''Terreo'' \<mapsto> True, ''Cobertura'' \<mapsto> False],
      filter_categories = [''IFCWALL'' \<mapsto> True, ''IFCSPACE'' \<mapsto> False],
      storey_checkboxes = None,
      category_checkboxes = None,
      clippingBoxHelper = None,
      viewer_alerts = [],
      lib_calls = []\<rparr>"

definition example_controls :: camera_controls where
  "example_controls =
     \<lparr>controls_position = Vector3 10 10 10, controls_target = Vector3 0 0 0\<rparr>"

section \<open>Properties\<close>

subsection \<open>Helper lemmas\<close>

lemma updateProgress_fields [simp]:
  "isLoading (updateProgress p s st) = isLoading st"
  "overlay_display (updateProgress p s st) = overlay_display st"
  "alerts (updateProgress p s st) = alerts st"
  "ifcLoader_calls (updateProgress p s st) = ifcLoader_calls st"
  by (simp_all add: updateProgress_def Let_def split: option.split)

lemma load_progress_fields [simp]:
  "isLoading (load_progress out st) = isLoading st"
  "overlay_display (load_progress out st) = overlay_display st"
  "alerts (load_progress out st) = alerts st"
  "ifcLoader_calls (load_progress out st) = ifcLoader_calls st"
proof -
  have "isLoading (fold progressCallback ps st) = isLoading st
      \<and> overlay_display (fold progressCallback ps st) = overlay_display st
      \<and> alerts (fold progressCallback ps st) = alerts st
      \<and> ifcLoader_calls (fold progressCallback ps st) = ifcLoader_calls st" for ps
    by (induction ps arbitrary: st) (simp_all add: progressCallback_def)
  then show "isLoading (load_progress out st) = isLoading st"
    "overlay_display (load_progress out st) = overlay_display st"
    "alerts (load_progress out st) = alerts st"
    "ifcLoader_calls (load_progress out st) = ifcLoader_calls st"
    by (simp_all add: load_progress_def)
qed

lemma load_start_fields [simp]:
  "isLoading (load_start f st) = True"
  "overlay_display (load_start f st) = DisplayFlex"
  "alerts (load_start f st) = alerts st"
  "ifcLoader_calls (load_start f st) = ifcLoader_calls st"
  by (simp_all add: load_start_def showLoading_def)

lemma load_read_fields [simp]:
  "isLoading (load_read f d st) = isLoading st"
  "overlay_display (load_read f d st) = overlay_display st"
  "alerts (load_read f d st) = alerts st"
  "ifcLoader_calls (load_read f d st) = ifcLoader_calls st @ [the_load_call f d]"
  by (simp_all add: load_read_def Let_def)

lemma load_done_fields [simp]:
  "isLoading (load_done st) = isLoading st"
  "overlay_display (load_done st) = overlay_display st"
  "alerts (load_done st) = alerts st"
  "ifcLoader_calls (load_done st) = ifcLoader_calls st"
  by (simp_all add: load_done_def)

lemma load_catch_fields [simp]:
  "isLoading (load_catch st) = isLoading st"
  "overlay_display (load_catch st) = overlay_display st"
  "alerts (load_catch st) = alerts st @ [ErroAoCarregarIFC]"
  "ifcLoader_calls (load_catch st) = ifcLoader_calls st"
  by (simp_all add: load_catch_def)

lemma load_finally_fields [simp]:
  "isLoading (load_finally st) = False"
  "overlay_display (load_finally st) = DisplayNone"
  "alerts (load_finally st) = alerts st"
  "ifcLoader_calls (load_finally st) = ifcLoader_calls st"
  by (simp_all add: load_finally_def hideLoading_def)

lemma torre_ends_with_ifc: "endsWith (toLowerCase ''Torre.IFC'') ''.ifc''"
  by code_simp

lemma remove_at_single: "length ps \<le> 1 \<Longrightarrow> k < length ps \<Longrightarrow> remove_at k ps = []"
  by (cases ps) (simp_all add: remove_at_def)

lemma load_step_inv:
  assumes inv: "load_inv c"
  shows "load_inv (load_step ev c)"
proof -
  obtain st ps where c: "c = (st, ps)" by (cases c)
  show ?thesis
  proof (cases ev)
    case (Request f)
    with inv c show ?thesis by (auto simp: load_inv_def)
  next
    case (ReadSettles k)
    with inv c show ?thesis
      by (auto simp: load_inv_def remove_at_single split: pending.split sum.split)
  next
    case (LoadSettles k out)
    with inv c show ?thesis
      by (auto simp: load_inv_def remove_at_single split: pending.split sum.split)
  next
    case (TimerFires k)
    with inv c show ?thesis
      by (auto simp: load_inv_def remove_at_single split: pending.split sum.split)
  qed
qed

lemma load_run_inv: "load_inv c \<Longrightarrow> load_inv (load_run evs c)"
  unfolding load_run_def
  by (induction evs arbitrary: c) (simp_all add: load_step_inv)

text \<open>
  Run without interruption, the machine does what \<open>loadIfcFromFile\<close> does: the request,
  the read, the load with the library's outcome, the timer.
\<close>

lemma loadIfcFromFile_as_run:
  assumes "\<not> isLoading st" and "arrayBuffer f = Inr data"
  shows "load_run [Request f, ReadSettles 0, LoadSettles 0 (lib (the_load_call f data)),
                   TimerFires 0] (st, [])
         = (loadIfcFromFile lib f st, [])"
  using assms
  by (simp add: load_run_def loadIfcFromFile_def Let_def remove_at_def split: sum.split)

lemma after_frames_eq: "after_frames n = (if n < 3 then RequestAnimationFrame n else Resolved 3)"
proof (induction n)
  case 0
  show ?case by simp
next
  case (Suc n)
  then show ?case by (auto simp: waitFrames_def Let_def)
qed

subsection \<open>Loading\<close>

text \<open>
  Claim C8. \<open>loadIfcFromFile\<close> is guarded and cleans up after itself: called while
  \<open>isLoading\<close> is set, it returns the state as it found it; called otherwise, it ends
  with \<open>isLoading\<close> false and the overlay hidden, whether the read and the library load
  succeed or throw, and it has shown the error alert exactly when one of them threw.
\<close>

theorem loadIfcFromFile_guarded_and_self_cleaning:
  "(isLoading st \<longrightarrow> loadIfcFromFile lib f st = st)
   \<and> (\<not> isLoading st \<longrightarrow>
        \<not> isLoading (loadIfcFromFile lib f st)
        \<and> overlay_display (loadIfcFromFile lib f st) = DisplayNone
        \<and> alerts (loadIfcFromFile lib f st) =
            alerts st @
              (case arrayBuffer f of
                 Inl e \<Rightarrow> [ErroAoCarregarIFC]
               | Inr data \<Rightarrow>
                   (case load_result (lib (the_load_call f data)) of
                      Inl e \<Rightarrow> [ErroAoCarregarIFC]
                    | Inr u \<Rightarrow> [])))"
  by (simp add: loadIfcFromFile_def Let_def split: sum.split)

theorem loadIfcFromFile_guarded_and_self_cleaning_witness:
  "\<not> isLoading loader_init
   \<and> \<not> isLoading (loadIfcFromFile lib_rejects example_file loader_init)
   \<and> overlay_display (loadIfcFromFile lib_rejects example_file loader_init) = DisplayNone
   \<and> alerts (loadIfcFromFile lib_rejects example_file loader_init) = [ErroAoCarregarIFC]
   \<and> alerts (loadIfcFromFile lib_resolves unreadable_file loader_init) = [ErroAoCarregarIFC]
   \<and> alerts (loadIfcFromFile lib_resolves example_file loader_init) = []
   \<and> isLoading (load_start example_file loader_init)
   \<and> loadIfcFromFile lib_resolves other_file (load_start example_file loader_init)
       = load_start example_file loader_init"
  using loadIfcFromFile_guarded_and_self_cleaning [of loader_init lib_rejects example_file]
    loadIfcFromFile_guarded_and_self_cleaning [of loader_init lib_resolves unreadable_file]
    loadIfcFromFile_guarded_and_self_cleaning [of loader_init lib_resolves example_file]
    loadIfcFromFile_guarded_and_self_cleaning
      [of "load_start example_file loader_init" lib_resolves other_file]
  by (simp add: loader_init_def example_file_def unreadable_file_def lib_rejects_def
        lib_resolves_def the_load_call_def)

text \<open>
  Claim C3. The bytes handed to \<open>ifcLoader.load\<close> are the bytes of the file: a call of
  \<open>loadIfcFromFile\<close> adds at most one call of the library, made when no load is in
  progress and the read succeeds, and its buffer is what the read returned; the file
  input and the drop handler reach the library only through \<open>loadIfcFromFile\<close> on the
  first file (the drop handler only for a name ending in \<open>.ifc\<close>, in any case).
\<close>

theorem ifc_bytes_handed_over_unchanged:
  "ifcLoader_calls (loadIfcFromFile lib f st) =
     ifcLoader_calls st @
       (if isLoading st then []
        else (case arrayBuffer f of
                Inl e \<Rightarrow> []
              | Inr bytes \<Rightarrow>
                  [\<lparr>buffer = bytes, coordinate = False,
                    model_name = replace_first ''.ifc'' '''' (file_name f)\<rparr>]))
   \<and> ifcLoader_calls (onFileInput lib files st) =
       (case files of
          Some (f # fs) \<Rightarrow> ifcLoader_calls (loadIfcFromFile lib f st)
        | _ \<Rightarrow> ifcLoader_calls st)
   \<and> ifcLoader_calls (onDrop lib files st) =
       (case files of
          Some (f # fs) \<Rightarrow>
            if endsWith (toLowerCase (file_name f)) ''.ifc''
            then ifcLoader_calls (loadIfcFromFile lib f (st\<lparr>dropZone := False\<rparr>))
            else ifcLoader_calls st
        | _ \<Rightarrow> ifcLoader_calls st)"
  by (simp add: loadIfcFromFile_def onFileInput_def onDrop_def Let_def the_load_call_def
        split: sum.split option.split list.split)

theorem ifc_bytes_handed_over_unchanged_witness:
  "map buffer (ifcLoader_calls (onFileInput lib_resolves (Some [example_file]) loader_init))
     = [[73, 83, 79]]
   \<and> map buffer
        (ifcLoader_calls (onDrop lib_resolves (Some [other_file, example_file]) loader_init))
     = [[45, 49]]
   \<and> map model_name (ifcLoader_calls (onDrop lib_resolves (Some [other_file]) loader_init))
     = [''Torre.IFC'']"
  using
    ifc_bytes_handed_over_unchanged [of lib_resolves example_file loader_init "Some [example_file]"]
    ifc_bytes_handed_over_unchanged
      [of lib_resolves other_file loader_init "Some [other_file, example_file]"]
    ifc_bytes_handed_over_unchanged [of lib_resolves other_file loader_init "Some [other_file]"]
  by (simp add: loader_init_def example_file_def other_file_def torre_ends_with_ifc)

text \<open>
  Claim C7, as stated, fails: the viewer does guard an operation itself. Two files
  are requested one after the other and both reads settle; only the first file
  reaches the library, the second request was dropped by the \<open>isLoading\<close> guard.
\<close>

theorem second_request_dropped_counterexample:
  "map model_name (ifcLoader_calls (fst (load_run
      [Request example_file, Request other_file, ReadSettles 0, ReadSettles 1]
      (loader_init, [])))) = [''casa'']
   \<and> snd (load_run
      [Request example_file, Request other_file, ReadSettles 0, ReadSettles 1]
      (loader_init, [])) = [AwaitLoad example_file]"
  by (simp add: load_run_def loader_init_def example_file_def other_file_def load_start_def
        showLoading_def updateProgress_def load_read_def the_load_call_def)

text \<open>
  Claim C7, amended. The viewer has concurrency control and scheduling of its own: a
  load requested while \<open>isLoading\<close> is set is dropped without any effect, so that,
  whatever the order in which requests arrive and reads, loads and timers settle, at
  most one call of \<open>loadIfcFromFile\<close> is suspended at any time, and \<open>isLoading\<close> is set
  exactly while one is; and the handler of a loaded model waits for exactly three
  animation frames before it goes on.
\<close>

theorem viewer_guards_loads_and_waits_frames:
  "(isLoading st \<longrightarrow> load_step (Request f) (st, ps) = (st, ps))
   \<and> length (snd (load_run evs (loader_init, []))) \<le> 1
   \<and> (isLoading (fst (load_run evs (loader_init, [])))
        \<longleftrightarrow> snd (load_run evs (loader_init, [])) \<noteq> [])
   \<and> after_frames n = (if n < 3 then RequestAnimationFrame n else Resolved 3)"
proof -
  have "load_inv (loader_init, [])" by (simp add: load_inv_def loader_init_def)
  then have "load_inv (load_run evs (loader_init, []))" by (rule load_run_inv)
  then show ?thesis by (simp add: load_inv_def after_frames_eq)
qed

theorem viewer_guards_loads_and_waits_frames_witness:
  "isLoading (load_start example_file loader_init)
   \<and> load_step (Request other_file) (load_start example_file loader_init, [AwaitRead example_file])
       = (load_start example_file loader_init, [AwaitRead example_file])
   \<and> length (snd (load_run [Request example_file, Request other_file] (loader_init, []))) \<le> 1
   \<and> isLoading (fst (load_run [Request example_file, Request other_file] (loader_init, [])))
   \<and> after_frames 2 = RequestAnimationFrame 2
   \<and> after_frames 3 = Resolved 3"
  using viewer_guards_loads_and_waits_frames
      [of "load_start example_file loader_init" other_file "[AwaitRead example_file]"
          "[Request example_file, Request other_file]" 2]
    viewer_guards_loads_and_waits_frames
      [of "load_start example_file loader_init" other_file "[AwaitRead example_file]"
          "[Request example_file, Request other_file]" 3]
  by (simp add: load_run_def loader_init_def)

subsection \<open>Framing the camera\<close>

lemma vec_length_less_iff:
  assumes "0 < r"
  shows "vec_length v < r \<longleftrightarrow> vx v * vx v + vy v * vy v + vz v * vz v < r * r"
proof -
  have r: "sqrt (r * r) = r" using assms by simp
  have "vec_length v < r \<longleftrightarrow> sqrt (vx v * vx v + vy v * vy v + vz v * vz v) < sqrt (r * r)"
    by (simp only: vec_length_def r)
  also have "\<dots> \<longleftrightarrow> vx v * vx v + vy v * vy v + vz v * vz v < r * r"
    by (rule real_sqrt_less_iff)
  finally show ?thesis .
qed

lemma vec_length_greater_iff:
  assumes "0 < r"
  shows "r < vec_length v \<longleftrightarrow> r * r < vx v * vx v + vy v * vy v + vz v * vz v"
proof -
  have r: "sqrt (r * r) = r" using assms by simp
  have "r < vec_length v \<longleftrightarrow> sqrt (r * r) < sqrt (vx v * vx v + vy v * vy v + vz v * vz v)"
    by (simp only: vec_length_def r)
  also have "\<dots> \<longleftrightarrow> r * r < vx v * vx v + vy v * vy v + vz v * vz v"
    by (rule real_sqrt_less_iff)
  finally show ?thesis .
qed

lemma vec_length_too_small:
  "vec_length v < 0.1 \<longleftrightarrow> vx v * vx v + vy v * vy v + vz v * vz v < 0.01"
  using vec_length_less_iff [of "0.1" v] by simp

lemma vec_length_too_large:
  "vec_length v > 10000 \<longleftrightarrow> vx v * vx v + vy v * vy v + vz v * vz v > 100000000"
  using vec_length_greater_iff [of 10000 v] by simp

text \<open>
  Claim C2, as stated, fails: for the example model, whose box is 10 by 7 by 4,
  \<open>frameModel\<close> does not hand the model to a framing call of the library, as the
  older handler \<open>onItemSet_main\<close> does, but calls \<open>setLookAt\<close> with a position it has
  computed from the size of the box.
\<close>

theorem frameModel_pass_through_counterexample:
  "fst (frameModel (\<lambda>c. None) (''casa'', example_model))
     = [CameraSetLookAt (Vector3 15.8 10.7 16.4) (Vector3 5 3.5 2) True]
   \<and> CameraFitToSphere ''casa'' True \<notin> set (fst (frameModel (\<lambda>c. None) (''casa'', example_model)))
   \<and> CameraFitToSphere ''casa'' True \<in> set (onItemSet_main ''casa'')"
  unfolding frameModel_def Let_def vec_length_too_small vec_length_too_large
  by (simp add: example_model_def example_box_def isEmpty_def getSize_def getCenter_def
        vec_sub_def vec_add_def multiplyScalar_def frame_call_def onItemSet_main_def)

text \<open>
  Claim C2, amended. \<open>frameModel\<close> is a pass-through only in part. For an empty
  bounding box it calls nothing. When the diagonal of the box is shorter than 0.1 or
  longer than 10000 it hands the model to \<open>fitToSphere\<close>. Otherwise it computes the
  camera position itself, from the dimensions of the model: the centre of the box
  moved by 1.8 times the largest dimension along (0.6, 0.4, 0.8), and calls
  \<open>setLookAt\<close> with this position and the centre. When the call throws, it falls back
  to \<open>fitToSphere\<close>. (The conditions on the diagonal are stated on its square.)
\<close>

theorem frameModel_computes_camera_position:
  "frameModel throws (modelId, m) =
     (let lo = box_min (object_box m); hi = box_max (object_box m);
          sx = vx hi - vx lo; sy = vy hi - vy lo; sz = vz hi - vz lo;
          cx = (vx lo + vx hi) / 2; cy = (vy lo + vy hi) / 2; cz = (vz lo + vz hi) / 2;
          d = max (max sx sy) sz * 1.8;
          c = (if sx * sx + sy * sy + sz * sz < 0.01 \<or> sx * sx + sy * sy + sz * sz > 100000000
               then CameraFitToSphere modelId True
               else CameraSetLookAt (Vector3 (cx + d * 0.6) (cy + d * 0.4) (cz + d * 0.8))
                      (Vector3 cx cy cz) True)
      in if vx hi < vx lo \<or> vy hi < vy lo \<or> vz hi < vz lo then ([], None)
         else (case throws c of
                 None \<Rightarrow> ([c], None)
               | Some e \<Rightarrow> ([c, CameraFitToSphere modelId True],
                            throws (CameraFitToSphere modelId True))))"
  unfolding frameModel_def Let_def vec_length_too_small vec_length_too_large
  by (simp add: isEmpty_def getSize_def getCenter_def vec_sub_def
        vec_add_def multiplyScalar_def frame_call_def frame_fallback_def
        split: option.split)

theorem frameModel_computes_camera_position_witness:
  "frameModel (\<lambda>c. None) (''casa'', example_model) =
     ([CameraSetLookAt (Vector3 15.8 10.7 16.4) (Vector3 5 3.5 2) True], None)
   \<and> frameModel (\<lambda>c. if c = CameraFitToSphere ''casa'' True then None else Some (JsError ''x''))
        (''casa'', example_model) =
     ([CameraSetLookAt (Vector3 15.8 10.7 16.4) (Vector3 5 3.5 2) True,
       CameraFitToSphere ''casa'' True], None)
   \<and> frameModel (\<lambda>c. None) (''casa'', example_model\<lparr>object_box :=
         \<lparr>box_min = Vector3 0 0 0, box_max = Vector3 0.01 0.02 0.03\<rparr>\<rparr>) =
     ([CameraFitToSphere ''casa'' True], None)
   \<and> frameModel (\<lambda>c. None) (''casa'', example_model\<lparr>object_box :=
         \<lparr>box_min = Vector3 0 0 0, box_max = Vector3 (- 1) 0 0\<rparr>\<rparr>) = ([], None)"
  using frameModel_computes_camera_position [of "\<lambda>c. None" "''casa''" example_model]
    frameModel_computes_camera_position
      [of "\<lambda>c. if c = CameraFitToSphere ''casa'' True then None else Some (JsError ''x'')"
          "''casa''" example_model]
    frameModel_computes_camera_position [of "\<lambda>c. None" "''casa''"
      "example_model\<lparr>object_box := \<lparr>box_min = Vector3 0 0 0, box_max = Vector3 0.01 0.02 0.03\<rparr>\<rparr>"]
    frameModel_computes_camera_position [of "\<lambda>c. None" "''casa''"
      "example_model\<lparr>object_box := \<lparr>box_min = Vector3 0 0 0, box_max = Vector3 (- 1) 0 0\<rparr>\<rparr>"]
  by (simp add: example_model_def example_box_def Let_def)

subsection \<open>Ground-floor normalisation and floor plans\<close>

lemma Min_insert_insert:
  "finite S \<Longrightarrow> Min (insert a (insert e S)) = Min (insert (min a e) S)"
  by (cases "S = {}") (simp_all add: min.assoc)

text \<open>The loop of \<open>adjustModelToLevel0\<close> finds the least elevation among the items.\<close>

lemma fold_min_step:
  "fst (fold min_step data (acc, g)) =
     (case acc of
        None \<Rightarrow> (if List.map_filter attr_Elevation data = [] then None
                 else Some (Min (set (List.map_filter attr_Elevation data))))
      | Some a \<Rightarrow> Some (Min (insert a (set (List.map_filter attr_Elevation data)))))"
proof (induction data arbitrary: acc g)
  case Nil
  show ?case by (cases acc) simp_all
next
  case (Cons x xs)
  let ?es = "List.map_filter attr_Elevation xs"
  show ?case
  proof (cases "attr_Elevation x")
    case None
    then show ?thesis using Cons [of acc g] by (cases acc) (simp_all add: min_step_def)
  next
    case (Some e)
    note elev = Some
    show ?thesis
    proof (cases acc)
      case None
      then show ?thesis using elev Cons [of "Some e"] by (simp add: min_step_def)
    next
      case (Some a)
      show ?thesis
      proof (cases "e < a")
        case True
        then have m: "min a e = e" by simp
        have "Min (insert a (insert e (set ?es))) = Min (insert e (set ?es))"
          unfolding Min_insert_insert [OF finite_set] m ..
        then show ?thesis using True Some elev Cons [of "Some e"]
          by (simp add: min_step_def)
      next
        case False
        then have m: "min a e = a" by simp
        have "Min (insert a (insert e (set ?es))) = Min (insert a (set ?es))"
          unfolding Min_insert_insert [OF finite_set] m ..
        then show ?thesis using False Some elev Cons [of "Some a"]
          by (simp add: min_step_def)
      qed
    qed
  qed
qed

lemma adjust_success:
  assumes "getCoordinates m = Inr coordHeight"
    and "getItemsOfCategories m = Inr storeys"
    and "concat (map snd storeys) \<noteq> []"
    and "getItemsData m (concat (map snd storeys)) = Inr data"
    and "List.map_filter attr_Elevation data \<noteq> []"
  shows "adjustModelToLevel0 m st =
     (m\<lparr>position_y := - (coordHeight + Min (set (List.map_filter attr_Elevation data)))\<rparr>,
      st\<lparr>baseElevationOffset := Min (set (List.map_filter attr_Elevation data))\<rparr>)"
  using assms by (auto simp add: adjustModelToLevel0_def Let_def fold_min_step)

lemma adjust_no_storey:
  assumes "getItemsOfCategories m = Inr storeys" and "concat (map snd storeys) = []"
  shows "adjustModelToLevel0 m st = (m, st)"
  using assms by (simp add: adjustModelToLevel0_def Let_def split: sum.split)

lemma adjust_no_elevation:
  assumes "getItemsOfCategories m = Inr storeys"
    and "getItemsData m (concat (map snd storeys)) = Inr data"
    and "List.map_filter attr_Elevation data = []"
  shows "adjustModelToLevel0 m st = (m, st)"
  using assms by (simp add: adjustModelToLevel0_def Let_def fold_min_step split: sum.split)

text \<open>
  \<open>updateStoreyData\<close> keeps the first item of every name, so no name occurs twice in
  the storey data, and sorting them does not change which item a name finds.
\<close>

lemma add_unique_simps:
  "attr_Name x = None \<Longrightarrow> add_unique x (all, seen) = (all, seen)"
  "attr_Name x = Some nm \<Longrightarrow> nm \<in> set seen \<Longrightarrow> add_unique x (all, seen) = (all, seen)"
  "attr_Name x = Some nm \<Longrightarrow> nm \<notin> set seen \<Longrightarrow>
     add_unique x (all, seen) = (all @ [x], seen @ [nm])"
  by (simp_all add: add_unique_def)

lemma find_name_append:
  "find (\<lambda>a. attr_Name a = Some n) (all @ [x]) =
     (case find (\<lambda>a. attr_Name a = Some n) all of
        Some s \<Rightarrow> Some s
      | None \<Rightarrow> if attr_Name x = Some n then Some x else None)"
  by (induction all) auto

lemma fold_add_unique_find:
  assumes "set seen = {n. \<exists>a \<in> set all. attr_Name a = Some n}"
  shows "find (\<lambda>a. attr_Name a = Some n) (fst (fold add_unique data (all, seen))) =
           (case find (\<lambda>a. attr_Name a = Some n) all of
              Some s \<Rightarrow> Some s
            | None \<Rightarrow> find (\<lambda>a. attr_Name a = Some n) data)"
  using assms
proof (induction data arbitrary: all seen)
  case Nil
  show ?case by (simp split: option.split)
next
  case (Cons x xs)
  show ?case
  proof (cases "attr_Name x")
    case None
    then show ?thesis using Cons.IH [OF Cons.prems]
      by (simp add: add_unique_simps split: option.split)
  next
    case (Some nm)
    show ?thesis
    proof (cases "nm \<in> set seen")
      case True
      then obtain a where a: "a \<in> set all" "attr_Name a = Some nm" using Cons.prems by auto
      have "find (\<lambda>a. attr_Name a = Some n) all = None \<Longrightarrow> n \<noteq> nm"
        using a by (auto simp: find_None_iff)
      then show ?thesis using True Some Cons.IH [OF Cons.prems]
        by (auto simp add: add_unique_simps split: option.split)
    next
      case False
      have s: "set (seen @ [nm]) = {n. \<exists>a \<in> set (all @ [x]). attr_Name a = Some n}"
        using Cons.prems Some by auto
      show ?thesis using False Some Cons.IH [OF s]
        by (auto simp add: add_unique_simps find_name_append split: option.split)
    qed
  qed
qed

lemma fold_add_unique_names:
  assumes "set seen = {n. \<exists>a \<in> set all. attr_Name a = Some n}"
    and "\<forall>a \<in> set all. \<forall>b \<in> set all. attr_Name a = attr_Name b \<longrightarrow> a = b"
  shows "\<forall>a \<in> set (fst (fold add_unique data (all, seen))).
         \<forall>b \<in> set (fst (fold add_unique data (all, seen))). attr_Name a = attr_Name b \<longrightarrow> a = b"
  using assms
proof (induction data arbitrary: all seen)
  case Nil
  then show ?case by simp
next
  case (Cons x xs)
  show ?case
  proof (cases "attr_Name x")
    case None
    then show ?thesis using Cons.IH [OF Cons.prems] by (simp add: add_unique_simps)
  next
    case (Some nm)
    show ?thesis
    proof (cases "nm \<in> set seen")
      case True
      then show ?thesis using Some Cons.IH [OF Cons.prems] by (simp add: add_unique_simps)
    next
      case False
      have s: "set (seen @ [nm]) = {n. \<exists>a \<in> set (all @ [x]). attr_Name a = Some n}"
        using Cons.prems(1) Some by auto
      have nf: "\<forall>a \<in> set all. attr_Name a \<noteq> Some nm" using False Cons.prems(1) by auto
      have u: "\<forall>a \<in> set (all @ [x]). \<forall>b \<in> set (all @ [x]). attr_Name a = attr_Name b \<longrightarrow> a = b"
        using nf Some Cons.prems(2) by auto
      show ?thesis using False Some Cons.IH [OF s u] by (simp add: add_unique_simps)
    qed
  qed
qed

lemma find_unique_set:
  assumes "set xs = set ys"
    and "\<forall>a \<in> set xs. \<forall>b \<in> set xs. P a \<longrightarrow> P b \<longrightarrow> a = b"
  shows "find P xs = find P ys"
proof (cases "find P xs")
  case None
  then have "find P ys = None" using assms(1) by (simp add: find_None_iff)
  with None show ?thesis by simp
next
  case (Some a)
  then have a: "a \<in> set xs" "P a" by (auto simp: find_Some_iff)
  then have "find P ys \<noteq> None" using assms(1) by (auto simp: find_None_iff)
  then obtain b where b: "find P ys = Some b" by auto
  then have "b \<in> set ys" "P b" by (auto simp: find_Some_iff)
  then have "a = b" using a assms by auto
  with Some b show ?thesis by simp
qed

lemma updateStoreyData_single:
  assumes "models st = [(modelId, m)]"
    and "getItemsOfCategories m = Inr storeys"
    and "getItemsData m (concat (map snd storeys)) = Inr data"
  shows "find (\<lambda>a. attr_Name a = Some n) (storeyData (updateStoreyData st)) =
         find (\<lambda>a. attr_Name a = Some n) data"
    and "baseElevationOffset (updateStoreyData st) = baseElevationOffset st"
proof -
  let ?all = "fst (fold add_unique data ([], []))"
  have sd: "storeyData (updateStoreyData st) = sort_key elevation_or_0 ?all"
    and "baseElevationOffset (updateStoreyData st) = baseElevationOffset st"
    using assms by (simp_all add: updateStoreyData_def updateGridLevelDropdown_def)
  then show "baseElevationOffset (updateStoreyData st) = baseElevationOffset st" by simp
  have u: "\<forall>a \<in> set ?all. \<forall>b \<in> set ?all. attr_Name a = attr_Name b \<longrightarrow> a = b"
    by (rule fold_add_unique_names) simp_all
  have "find (\<lambda>a. attr_Name a = Some n) (sort_key elevation_or_0 ?all)
      = find (\<lambda>a. attr_Name a = Some n) ?all"
    by (rule find_unique_set) (use u in auto)
  also have "\<dots> = find (\<lambda>a. attr_Name a = Some n) data"
    using fold_add_unique_find [of "[]" "[]" n data] by simp
  finally show "find (\<lambda>a. attr_Name a = Some n) (storeyData (updateStoreyData st)) =
         find (\<lambda>a. attr_Name a = Some n) data"
    using sd by simp
qed

lemma getStoreyElevation_after_update:
  assumes "models st = [(modelId, m)]"
    and "getItemsOfCategories m = Inr storeys"
    and "getItemsData m (concat (map snd storeys)) = Inr data"
  shows "getStoreyElevation name (updateStoreyData st) =
     (case find (\<lambda>a. attr_Name a = Some name) data of
        None \<Rightarrow> 0
      | Some storey \<Rightarrow>
          (case attr_Elevation storey of
             None \<Rightarrow> 0
           | Some elevation \<Rightarrow> elevation - baseElevationOffset st))"
  unfolding getStoreyElevation_def updateStoreyData_single [OF assms] ..

text \<open>
  Claim C10. When the library answers and some storey of the model carries an
  elevation, \<open>adjustModelToLevel0\<close> sets the Y position of the model to minus the sum
  of the coordinate height and the least storey elevation, and records that least
  elevation as \<open>baseElevationOffset\<close>. With no storey, or with no elevation on any
  storey, model and viewer stay as they were. \<open>getStoreyElevation\<close> returns the
  elevation of the storey of that name in the storey data minus
  \<open>baseElevationOffset\<close>, and 0 for a name that is not in the storey data; once
  \<open>updateStoreyData\<close> has read the storeys of the one loaded model, the storey of a
  name is the first item of the model with that name.
\<close>

theorem ground_floor_normalisation:
  "(getCoordinates m = Inr coordHeight \<and> getItemsOfCategories m = Inr storeys
      \<and> concat (map snd storeys) \<noteq> []
      \<and> getItemsData m (concat (map snd storeys)) = Inr data
      \<and> List.map_filter attr_Elevation data \<noteq> []
    \<longrightarrow> adjustModelToLevel0 m st =
         (m\<lparr>position_y := - (coordHeight + Min (set (List.map_filter attr_Elevation data)))\<rparr>,
          st\<lparr>baseElevationOffset := Min (set (List.map_filter attr_Elevation data))\<rparr>))
   \<and> (getItemsOfCategories m = Inr storeys \<and> concat (map snd storeys) = []
    \<longrightarrow> adjustModelToLevel0 m st = (m, st))
   \<and> (getItemsOfCategories m = Inr storeys
      \<and> getItemsData m (concat (map snd storeys)) = Inr data
      \<and> List.map_filter attr_Elevation data = []
    \<longrightarrow> adjustModelToLevel0 m st = (m, st))
   \<and> (find (\<lambda>a. attr_Name a = Some name) (storeyData st) = Some storey
      \<and> attr_Elevation storey = Some elevation
    \<longrightarrow> getStoreyElevation name st = elevation - baseElevationOffset st)
   \<and> (find (\<lambda>a. attr_Name a = Some name) (storeyData st) = None
    \<longrightarrow> getStoreyElevation name st = 0)
   \<and> (models st = [(modelId, m)] \<and> getItemsOfCategories m = Inr storeys
      \<and> getItemsData m (concat (map snd storeys)) = Inr data
    \<longrightarrow> getStoreyElevation name (updateStoreyData st) =
         (case find (\<lambda>a. attr_Name a = Some name) data of
            None \<Rightarrow> 0
          | Some s \<Rightarrow>
              (case attr_Elevation s of
                 None \<Rightarrow> 0
               | Some e \<Rightarrow> e - baseElevationOffset st)))"
  using adjust_success [of m coordHeight storeys data st]
    adjust_no_storey [of m storeys st] adjust_no_elevation [of m storeys data st]
    getStoreyElevation_after_update [of st modelId m storeys data name]
  by (simp add: getStoreyElevation_def)

theorem ground_floor_normalisation_witness:
  "adjustModelToLevel0 example_model example_viewer =
     (example_model\<lparr>position_y := - 97\<rparr>, example_viewer\<lparr>baseElevationOffset := - 3\<rparr>)
   \<and> adjustModelToLevel0 (example_model\<lparr>getItemsOfCategories := Inr []\<rparr>) example_viewer =
     (example_model\<lparr>getItemsOfCategories := Inr []\<rparr>, example_viewer)
   \<and> adjustModelToLevel0 (example_model\<lparr>getItemsData := (\<lambda>ids. Inr [])\<rparr>) example_viewer =
     (example_model\<lparr>getItemsData := (\<lambda>ids. Inr [])\<rparr>, example_viewer)
   \<and> getStoreyElevation ''Terreo''
        (example_viewer\<lparr>storeyData := example_storeys, baseElevationOffset := - 3\<rparr>) = 6
   \<and> getStoreyElevation ''Mezanino''
        (example_viewer\<lparr>storeyData := example_storeys, baseElevationOffset := - 3\<rparr>) = 0
   \<and> getStoreyElevation ''Terreo'' (updateStoreyData (example_viewer\<lparr>baseElevationOffset := - 3\<rparr>)) = 6
   \<and> getStoreyElevation ''Subsolo'' (updateStoreyData (example_viewer\<lparr>baseElevationOffset := - 3\<rparr>)) = 0
   \<and> getStoreyElevation ''Cobertura'' (updateStoreyData (example_viewer\<lparr>baseElevationOffset := - 3\<rparr>)) = 0"
  using
    ground_floor_normalisation [of example_model 100 "[(''IFCBUILDINGSTOREY'', [5, 6, 7])]"
      example_storeys example_viewer "''Terreo''"
      "\<lparr>attr_Name = Some ''Terreo'', attr_Elevation = Some 3\<rparr>" 3 "''casa''"]
    ground_floor_normalisation [of "example_model\<lparr>getItemsOfCategories := Inr []\<rparr>" 100 "[]"
      example_storeys example_viewer "''Terreo''"
      "\<lparr>attr_Name = Some ''Terreo'', attr_Elevation = Some 3\<rparr>" 3 "''casa''"]
    ground_floor_normalisation [of "example_model\<lparr>getItemsData := (\<lambda>ids. Inr [])\<rparr>" 100
      "[(''IFCBUILDINGSTOREY'', [5, 6, 7])]" "[]" example_viewer "''Terreo''"
      "\<lparr>attr_Name = Some ''Terreo'', attr_Elevation = Some 3\<rparr>" 3 "''casa''"]
    ground_floor_normalisation [of example_model 100 "[(''IFCBUILDINGSTOREY'', [5, 6, 7])]"
      example_storeys "example_viewer\<lparr>storeyData := example_storeys, baseElevationOffset := - 3\<rparr>"
      "''Terreo''" "\<lparr>attr_Name = Some ''Terreo'', attr_Elevation = Some 3\<rparr>" 3 "''casa''"]
    ground_floor_normalisation [of example_model 100 "[(''IFCBUILDINGSTOREY'', [5, 6, 7])]"
      example_storeys "example_viewer\<lparr>storeyData := example_storeys, baseElevationOffset := - 3\<rparr>"
      "''Mezanino''" "\<lparr>attr_Name = Some ''Terreo'', attr_Elevation = Some 3\<rparr>" 3 "''casa''"]
    ground_floor_normalisation [of example_model 100 "[(''IFCBUILDINGSTOREY'', [5, 6, 7])]"
      example_storeys "example_viewer\<lparr>baseElevationOffset := - 3\<rparr>" "''Terreo''"
      "\<lparr>attr_Name = Some ''Terreo'', attr_Elevation = Some 3\<rparr>" 3 "''casa''"]
    ground_floor_normalisation [of example_model 100 "[(''IFCBUILDINGSTOREY'', [5, 6, 7])]"
      example_storeys "example_viewer\<lparr>baseElevationOffset := - 3\<rparr>" "''Subsolo''"
      "\<lparr>attr_Name = Some ''Terreo'', attr_Elevation = Some 3\<rparr>" 3 "''casa''"]
    ground_floor_normalisation [of example_model 100 "[(''IFCBUILDINGSTOREY'', [5, 6, 7])]"
      example_storeys "example_viewer\<lparr>baseElevationOffset := - 3\<rparr>" "''Cobertura''"
      "\<lparr>attr_Name = Some ''Terreo'', attr_Elevation = Some 3\<rparr>" 3 "''casa''"]
  by (simp add: example_model_def example_viewer_def example_storeys_def)

lemma manual_views_length:
  "length (manual_views box) = nat (max 1 \<lceil>vy (getSize box) / 3\<rceil>) + 1"
  by (simp add: manual_views_def Let_def)

lemma manual_views_floor:
  assumes "i < nat (max 1 \<lceil>vy (getSize box) / 3\<rceil>)"
  shows "manual_views box ! i =
     \<lparr>view_id = Nivel (i + 1)
        (vy (box_min box)
          + real i * (vy (getSize box) / real (nat (max 1 \<lceil>vy (getSize box) / 3\<rceil>)))
          + vy (getSize box) / real (nat (max 1 \<lceil>vy (getSize box) / 3\<rceil>)) / 2),
      view_normal = Vector3 0 (- 1) 0,
      view_point = Vector3 (vx (getCenter box))
        (vy (box_min box)
          + real i * (vy (getSize box) / real (nat (max 1 \<lceil>vy (getSize box) / 3\<rceil>)))
          + vy (getSize box) / real (nat (max 1 \<lceil>vy (getSize box) / 3\<rceil>)) / 2
          + 1.5)
        (vz (getCenter box))\<rparr>"
proof -
  have n: "real_of_int (max 1 \<lceil>vy (getSize box) / 3\<rceil>)
         = real (nat (max 1 \<lceil>vy (getSize box) / 3\<rceil>))"
    by simp
  show ?thesis
    using assms
    by (simp add: manual_views_def Let_def nth_append n del: of_nat_nat)
qed

lemma manual_views_top:
  "last (manual_views box) =
     \<lparr>view_id = VistaSuperiorTopo, view_normal = Vector3 0 (- 1) 0,
      view_point = Vector3 (vx (getCenter box)) (vy (box_max box) + 2) (vz (getCenter box))\<rparr>"
  by (simp add: manual_views_def Let_def)

lemma generateFloorPlans_ifc:
  assumes "models st = (modelId, m) # rest" and "vs \<noteq> []"
  shows "floorViews (generateFloorPlans (Inr vs) st) = vs"
    and "lib_calls (generateFloorPlans (Inr vs) st) =
      lib_calls st @ ClassifierByIfcBuildingStorey # map (ViewsListDelete \<circ> view_id) (floorViews st)
        @ [ViewsCreateFromIfcStoreys 1.5]"
  using assms by (simp_all add: generateFloorPlans_def Let_def updateFloorDropdown_def)

lemma generateFloorPlans_manual:
  assumes "models st = (modelId, m) # rest" and "r = Inr [] \<or> (\<exists>e. r = Inl e)"
  shows "floorViews (generateFloorPlans r st) = manual_views (object_box m)"
    and "lib_calls (generateFloorPlans r st) =
      lib_calls st @ ClassifierByIfcBuildingStorey # map (ViewsListDelete \<circ> view_id) (floorViews st)
        @ [ViewsCreateFromIfcStoreys 1.5] @ map views_create (manual_views (object_box m))"
  using assms by (auto simp add: generateFloorPlans_def Let_def updateFloorDropdown_def)

lemma example_manual_views:
  "manual_views example_box =
     [\<lparr>view_id = Nivel 1 (7 / 6), view_normal = Vector3 0 (- 1) 0,
       view_point = Vector3 5 (8 / 3) 2\<rparr>,
      \<lparr>view_id = Nivel 2 (7 / 2), view_normal = Vector3 0 (- 1) 0,
       view_point = Vector3 5 5 2\<rparr>,
      \<lparr>view_id = Nivel 3 (35 / 6), view_normal = Vector3 0 (- 1) 0,
       view_point = Vector3 5 (22 / 3) 2\<rparr>,
      \<lparr>view_id = VistaSuperiorTopo, view_normal = Vector3 0 (- 1) 0,
       view_point = Vector3 5 9 2\<rparr>]"
  by code_simp

text \<open>
  Claim C1, as stated, fails: the library delivers no storey views for the example
  model, whose box is 7 high, and the viewer then holds four views of its own making:
  it has computed three floors and the elevation of each section.
\<close>

theorem floor_plans_computed_counterexample:
  "map view_point (floorViews (generateFloorPlans (Inr []) example_viewer))
     = [Vector3 5 (8 / 3) 2, Vector3 5 5 2, Vector3 5 (22 / 3) 2, Vector3 5 9 2]
   \<and> map view_id (floorViews (generateFloorPlans (Inr []) example_viewer))
     = [Nivel 1 (7 / 6), Nivel 2 (7 / 2), Nivel 3 (35 / 6), VistaSuperiorTopo]"
  by (simp add: generateFloorPlans_def Let_def updateFloorDropdown_def example_viewer_def
        example_model_def example_manual_views)

text \<open>
  Claim C1, amended. Parsing, geometry and rendering of the model are the library's,
  but two operations compute their result in the viewer. When the library returns
  storey views, \<open>generateFloorPlans\<close> keeps them and creates none. When the library
  returns none, or throws, it computes the number of floors as the height of the
  bounding box divided by 3 and rounded up, at least 1; it creates one view per floor,
  at the bottom of the box plus the floor's index times the floor height plus half a
  floor height plus 1.5, and one view 2 above the top of the box. And
  \<open>adjustModelToLevel0\<close> computes the least storey elevation and moves the model by
  minus the sum of the coordinate height and that elevation.
\<close>

theorem floor_plans_and_level_computed_by_viewer:
  assumes "models st = (modelId, m) # rest"
  shows
    "(vs \<noteq> [] \<longrightarrow>
        floorViews (generateFloorPlans (Inr vs) st) = vs
      \<and> lib_calls (generateFloorPlans (Inr vs) st) =
          lib_calls st @ ClassifierByIfcBuildingStorey
            # map (ViewsListDelete \<circ> view_id) (floorViews st) @ [ViewsCreateFromIfcStoreys 1.5])
     \<and> (r = Inr [] \<or> (\<exists>e. r = Inl e) \<longrightarrow>
        (let box = object_box m;
             height = vy (getSize box);
             numFloors = nat (max 1 \<lceil>height / 3\<rceil>);
             floorHeight = height / real numFloors;
             views = floorViews (generateFloorPlans r st)
         in length views = numFloors + 1
          \<and> (\<forall>i < numFloors.
                view_id (views ! i) =
                  Nivel (i + 1) (vy (box_min box) + real i * floorHeight + floorHeight / 2)
              \<and> view_normal (views ! i) = Vector3 0 (- 1) 0
              \<and> view_point (views ! i) =
                  Vector3 (vx (getCenter box))
                    (vy (box_min box) + real i * floorHeight + floorHeight / 2 + 1.5)
                    (vz (getCenter box)))
          \<and> last views =
              \<lparr>view_id = VistaSuperiorTopo, view_normal = Vector3 0 (- 1) 0,
               view_point =
                 Vector3 (vx (getCenter box)) (vy (box_max box) + 2) (vz (getCenter box))\<rparr>
          \<and> lib_calls (generateFloorPlans r st) =
              lib_calls st @ ClassifierByIfcBuildingStorey
                # map (ViewsListDelete \<circ> view_id) (floorViews st)
                @ [ViewsCreateFromIfcStoreys 1.5] @ map views_create views))
     \<and> (getCoordinates m = Inr coordHeight \<and> getItemsOfCategories m = Inr storeys
          \<and> concat (map snd storeys) \<noteq> []
          \<and> getItemsData m (concat (map snd storeys)) = Inr data
          \<and> List.map_filter attr_Elevation data \<noteq> []
        \<longrightarrow> position_y (fst (adjustModelToLevel0 m st)) =
             - (coordHeight + Min (set (List.map_filter attr_Elevation data))))"
proof -
  have a: "vs \<noteq> [] \<longrightarrow>
        floorViews (generateFloorPlans (Inr vs) st) = vs
      \<and> lib_calls (generateFloorPlans (Inr vs) st) =
          lib_calls st @ ClassifierByIfcBuildingStorey
            # map (ViewsListDelete \<circ> view_id) (floorViews st) @ [ViewsCreateFromIfcStoreys 1.5]"
    using generateFloorPlans_ifc [OF assms] by simp
  have b: "r = Inr [] \<or> (\<exists>e. r = Inl e) \<longrightarrow>
        (let box = object_box m;
             height = vy (getSize box);
             numFloors = nat (max 1 \<lceil>height / 3\<rceil>);
             floorHeight = height / real numFloors;
             views = floorViews (generateFloorPlans r st)
         in length views = numFloors + 1
          \<and> (\<forall>i < numFloors.
                view_id (views ! i) =
                  Nivel (i + 1) (vy (box_min box) + real i * floorHeight + floorHeight / 2)
              \<and> view_normal (views ! i) = Vector3 0 (- 1) 0
              \<and> view_point (views ! i) =
                  Vector3 (vx (getCenter box))
                    (vy (box_min box) + real i * floorHeight + floorHeight / 2 + 1.5)
                    (vz (getCenter box)))
          \<and> last views =
              \<lparr>view_id = VistaSuperiorTopo, view_normal = Vector3 0 (- 1) 0,
               view_point =
                 Vector3 (vx (getCenter box)) (vy (box_max box) + 2) (vz (getCenter box))\<rparr>
          \<and> lib_calls (generateFloorPlans r st) =
              lib_calls st @ ClassifierByIfcBuildingStorey
                # map (ViewsListDelete \<circ> view_id) (floorViews st)
                @ [ViewsCreateFromIfcStoreys 1.5] @ map views_create views)"
  proof
    assume r: "r = Inr [] \<or> (\<exists>e. r = Inl e)"
    show "(let box = object_box m;
             height = vy (getSize box);
             numFloors = nat (max 1 \<lceil>height / 3\<rceil>);
             floorHeight = height / real numFloors;
             views = floorViews (generateFloorPlans r st)
         in length views = numFloors + 1
          \<and> (\<forall>i < numFloors.
                view_id (views ! i) =
                  Nivel (i + 1) (vy (box_min box) + real i * floorHeight + floorHeight / 2)
              \<and> view_normal (views ! i) = Vector3 0 (- 1) 0
              \<and> view_point (views ! i) =
                  Vector3 (vx (getCenter box))
                    (vy (box_min box) + real i * floorHeight + floorHeight / 2 + 1.5)
                    (vz (getCenter box)))
          \<and> last views =
              \<lparr>view_id = VistaSuperiorTopo, view_normal = Vector3 0 (- 1) 0,
               view_point =
                 Vector3 (vx (getCenter box)) (vy (box_max box) + 2) (vz (getCenter box))\<rparr>
          \<and> lib_calls (generateFloorPlans r st) =
              lib_calls st @ ClassifierByIfcBuildingStorey
                # map (ViewsListDelete \<circ> view_id) (floorViews st)
                @ [ViewsCreateFromIfcStoreys 1.5] @ map views_create views)"
      unfolding Let_def generateFloorPlans_manual [OF assms r]
      by (simp add: manual_views_length manual_views_floor manual_views_top del: of_nat_nat)
  qed
  have c: "getCoordinates m = Inr coordHeight \<and> getItemsOfCategories m = Inr storeys
          \<and> concat (map snd storeys) \<noteq> []
          \<and> getItemsData m (concat (map snd storeys)) = Inr data
          \<and> List.map_filter attr_Elevation data \<noteq> []
        \<longrightarrow> position_y (fst (adjustModelToLevel0 m st)) =
             - (coordHeight + Min (set (List.map_filter attr_Elevation data)))"
    using adjust_success [of m coordHeight storeys data st] by simp
  from a b c show ?thesis by (intro conjI)
qed

theorem floor_plans_and_level_computed_by_viewer_witness:
  "models example_viewer = (''casa'', example_model) # []
   \<and> floorViews (generateFloorPlans
        (Inr [\<lparr>view_id = StoreyView ''Terreo'', view_normal = Vector3 0 (- 1) 0,
               view_point = Vector3 0 4.5 0\<rparr>]) example_viewer)
      = [\<lparr>view_id = StoreyView ''Terreo'', view_normal = Vector3 0 (- 1) 0,
          view_point = Vector3 0 4.5 0\<rparr>]
   \<and> length (floorViews (generateFloorPlans (Inl (JsError ''no storeys'')) example_viewer)) = 4
   \<and> view_point (floorViews (generateFloorPlans (Inl (JsError ''no storeys'')) example_viewer) ! 1)
      = Vector3 5 5 2
   \<and> position_y (fst (adjustModelToLevel0 example_model example_viewer)) = - 97"
proof -
  have m: "models example_viewer = (''casa'', example_model) # []"
    by (simp add: example_viewer_def)
  show ?thesis
    using m
      floor_plans_and_level_computed_by_viewer [OF m,
        of "[\<lparr>view_id = StoreyView ''Terreo'', view_normal = Vector3 0 (- 1) 0,
               view_point = Vector3 0 4.5 0\<rparr>]"
           "Inl (JsError ''no storeys'')" 100 "[(''IFCBUILDINGSTOREY'', [5, 6, 7])]"
           example_storeys]
    by (simp add: Let_def example_model_def example_box_def example_storeys_def getSize_def
          getCenter_def isEmpty_def vec_sub_def vec_add_def multiplyScalar_def)
qed

subsection \<open>Classification and filters\<close>

lemma filter_boxes_names: "map fst (fst (filter_boxes ns fs)) = ns"
  by (induction ns arbitrary: fs) (simp_all add: Let_def)

lemma updateFilterUI_fields [simp]:
  "models (updateFilterUI st) = models st"
  "classifier_storeys (updateFilterUI st) = classifier_storeys st"
  "classifier_categories (updateFilterUI st) = classifier_categories st"
  "lib_calls (updateFilterUI st) = lib_calls st"
  by (simp_all add: updateFilterUI_def Let_def split: option.split)

lemma updateFilterUI_boxes:
  "map_option (map fst) (storey_checkboxes (updateFilterUI st))
     = map_option (map fst) (classifier_storeys st)"
  "map_option (map fst) (category_checkboxes (updateFilterUI st))
     = map_option (map fst) (classifier_categories st)"
  by (simp_all add: updateFilterUI_def Let_def filter_boxes_names split: option.split)

text \<open>
  Claim C4. \<open>processClassifications\<close> passes the classification through: with no
  model loaded it does nothing; with a model its calls into the library are
  \<open>byIfcBuildingStorey\<close> and \<open>byCategory\<close>, in this order, and no other; the groups
  held afterwards are the ones the library made, the models are untouched, and the
  filter checkboxes carry the names of the library's groups in the library's order.
\<close>

theorem classification_is_passed_through:
  "(models st = [] \<longrightarrow> processClassifications byStorey byCategory st = st)
   \<and> (models st \<noteq> [] \<longrightarrow>
        classifier_storeys (processClassifications byStorey byCategory st) = byStorey
      \<and> classifier_categories (processClassifications byStorey byCategory st) = byCategory
      \<and> lib_calls (processClassifications byStorey byCategory st)
          = lib_calls st @ [ClassifierByIfcBuildingStorey, ClassifierByCategory]
      \<and> models (processClassifications byStorey byCategory st) = models st
      \<and> map_option (map fst) (storey_checkboxes (processClassifications byStorey byCategory st))
          = map_option (map fst) byStorey
      \<and> map_option (map fst) (category_checkboxes (processClassifications byStorey byCategory st))
          = map_option (map fst) byCategory)"
  by (cases "models st") (simp_all add: processClassifications_def updateFilterUI_boxes)

theorem classification_is_passed_through_witness:
  "models example_viewer \<noteq> []
   \<and> lib_calls (processClassifications (Some example_storey_groups) None example_viewer)
       = [ClassifierByIfcBuildingStorey, ClassifierByCategory]
   \<and> classifier_storeys (processClassifications (Some example_storey_groups) None example_viewer)
       = Some [(''Terreo'', [[1, 2]]), (''Cobertura'', [[3]])]
   \<and> map_option (map fst)
        (storey_checkboxes (processClassifications (Some example_storey_groups) None example_viewer))
       = Some [''Terreo'', ''Cobertura'']
   \<and> category_checkboxes (processClassifications (Some example_storey_groups) None example_viewer)
       = None
   \<and> processClassifications (Some example_storey_groups) None (example_viewer\<lparr>models := []\<rparr>)
       = example_viewer\<lparr>models := []\<rparr>"
  using classification_is_passed_through [of example_viewer "Some example_storey_groups" None]
    classification_is_passed_through
      [of "example_viewer\<lparr>models := []\<rparr>" "Some example_storey_groups" None]
  by (simp add: example_viewer_def example_storey_groups_def)

lemma setVisible_fold_False:
  "fold (\<lambda>ids. setVisible ids False) xss vis i \<longleftrightarrow> vis i \<and> i \<notin> set (concat xss)"
  by (induction xss arbitrary: vis) (auto simp: setVisible_def)

lemma hide_group_at:
  "hide_group fs g vis i \<longleftrightarrow> vis i \<and> \<not> (fs (fst g) \<noteq> Some True \<and> i \<in> set (concat (snd g)))"
  by (simp add: hide_group_def setVisible_fold_False)

lemma fold_hide_group_at:
  "fold (hide_group fs) groups vis i \<longleftrightarrow>
     vis i \<and> (\<forall>g \<in> set groups. i \<in> set (concat (snd g)) \<longrightarrow> fs (fst g) = Some True)"
  by (induction groups arbitrary: vis) (auto simp: hide_group_at)

lemma hide_unchecked_at:
  "hide_unchecked fs cl vis i \<longleftrightarrow>
     vis i \<and> (\<forall>g \<in> set (case cl of None \<Rightarrow> [] | Some groups \<Rightarrow> groups).
                i \<in> set (concat (snd g)) \<longrightarrow> fs (fst g) = Some True)"
  by (cases cl) (simp_all add: hide_unchecked_def fold_hide_group_at)

lemma show_all_at:
  "(if length allIds > 0 then setVisible allIds True vis else vis) i \<longleftrightarrow> i \<in> set allIds \<or> vis i"
  by (cases allIds) (simp_all add: setVisible_def)

text \<open>
  What \<open>applyFilters\<close> leaves visible: an item that was in some storey group or was
  visible before, and that is in no storey group and in no category group whose
  filter is not checked.
\<close>

lemma applyFilters_visible:
  assumes "models st = (modelId, m) # rest"
  shows "item_visible (snd (hd (models (applyFilters st)))) i \<longleftrightarrow>
     (i \<in> set (concat (map (concat \<circ> snd)
            (case classifier_storeys st of None \<Rightarrow> [] | Some groups \<Rightarrow> groups)))
       \<or> item_visible m i)
     \<and> (\<forall>g \<in> set (case classifier_storeys st of None \<Rightarrow> [] | Some groups \<Rightarrow> groups).
           i \<in> set (concat (snd g)) \<longrightarrow> filter_storeys st (fst g) = Some True)
     \<and> (\<forall>g \<in> set (case classifier_categories st of None \<Rightarrow> [] | Some groups \<Rightarrow> groups).
           i \<in> set (concat (snd g)) \<longrightarrow> filter_categories st (fst g) = Some True)"
proof -
  let ?allIds = "(case classifier_storeys st of
                    None \<Rightarrow> []
                  | Some groups \<Rightarrow> concat (map (concat \<circ> snd) groups))"
  have ids: "?allIds = concat (map (concat \<circ> snd)
          (case classifier_storeys st of None \<Rightarrow> [] | Some groups \<Rightarrow> groups))"
    by (cases "classifier_storeys st") simp_all
  have eq: "item_visible (snd (hd (models (applyFilters st)))) =
      hide_unchecked (filter_categories st) (classifier_categories st)
        (hide_unchecked (filter_storeys st) (classifier_storeys st)
          (if length ?allIds > 0 then setVisible ?allIds True (item_visible m)
           else item_visible m))"
    using assms by (simp add: applyFilters_def Let_def)
  show ?thesis
    unfolding eq hide_unchecked_at show_all_at ids by (simp add: conj_assoc)
qed

text \<open>
  Claim C9. For a loaded model with storey and category classifications, after
  \<open>applyFilters\<close> an item of some storey group is visible exactly when the filter of
  every storey group it belongs to is checked and every category group it belongs to
  has its filter checked; an item of no storey group is visible exactly when it was
  visible before and every category group it belongs to has its filter checked, so
  that \<open>applyFilters\<close> can hide it but never shows it again.
\<close>

theorem applyFilters_postcondition:
  assumes "models st = (modelId, m) # rest"
    and "classifier_storeys st = Some storeys"
    and "classifier_categories st = Some categories"
  shows "(i \<in> set (concat (map (concat \<circ> snd) storeys)) \<longrightarrow>
           (item_visible (snd (hd (models (applyFilters st)))) i \<longleftrightarrow>
              (\<forall>g \<in> set storeys. i \<in> set (concat (snd g)) \<longrightarrow> filter_storeys st (fst g) = Some True)
            \<and> (\<forall>g \<in> set categories. i \<in> set (concat (snd g))
                  \<longrightarrow> filter_categories st (fst g) = Some True)))
    \<and> (i \<notin> set (concat (map (concat \<circ> snd) storeys)) \<longrightarrow>
           (item_visible (snd (hd (models (applyFilters st)))) i \<longleftrightarrow>
              item_visible m i
            \<and> (\<forall>g \<in> set categories. i \<in> set (concat (snd g))
                  \<longrightarrow> filter_categories st (fst g) = Some True)))"
proof -
  have "i \<notin> set (concat (map (concat \<circ> snd) storeys)) \<Longrightarrow>
        (\<forall>g \<in> set storeys. i \<in> set (concat (snd g)) \<longrightarrow> filter_storeys st (fst g) = Some True)"
    by auto
  then show ?thesis
    using applyFilters_visible [OF assms(1), of i] assms(2,3) by auto
qed

theorem applyFilters_postcondition_witness:
  "models example_viewer = (''casa'', example_model) # []
   \<and> classifier_storeys example_viewer = Some example_storey_groups
   \<and> classifier_categories example_viewer = Some example_category_groups
   \<and> item_visible (snd (hd (models (applyFilters example_viewer)))) 1
   \<and> \<not> item_visible (snd (hd (models (applyFilters example_viewer)))) 2
   \<and> \<not> item_visible (snd (hd (models (applyFilters example_viewer)))) 3
   \<and> \<not> item_visible (snd (hd (models (applyFilters example_viewer)))) 4
   \<and> \<not> item_visible (snd (hd (models (applyFilters example_viewer)))) 5
   \<and> item_visible (snd (hd (models (applyFilters example_viewer)))) 6"
proof -
  have m: "models example_viewer = (''casa'', example_model) # []"
    and s: "classifier_storeys example_viewer = Some example_storey_groups"
    and c: "classifier_categories example_viewer = Some example_category_groups"
    by (simp_all add: example_viewer_def)
  have fs: "filter_storeys example_viewer = [''Terreo'' \<mapsto> True, ''Cobertura'' \<mapsto> False]"
    and fc: "filter_categories example_viewer = [''IFCWALL'' \<mapsto> True, ''IFCSPACE'' \<mapsto> False]"
    by (simp_all add: example_viewer_def)
  show ?thesis
    using m s c
      applyFilters_postcondition [OF m s c, of 1] applyFilters_postcondition [OF m s c, of 2]
      applyFilters_postcondition [OF m s c, of 3] applyFilters_postcondition [OF m s c, of 4]
      applyFilters_postcondition [OF m s c, of 5] applyFilters_postcondition [OF m s c, of 6]
    by (simp add: fs fc example_storey_groups_def example_category_groups_def example_model_def)
qed

subsection \<open>The clipping box\<close>

text \<open>
  The six planes bound the box grown by the margin: a point is on the side of every
  plane that its normal points to exactly when it lies in the grown box.
\<close>

lemma clipping_planes_bound_box:
  "(\<forall>np \<in> set (clipping_planes box).
       vx (fst np) * (vx q - vx (snd np)) + vy (fst np) * (vy q - vy (snd np))
         + vz (fst np) * (vz q - vz (snd np)) \<ge> 0)
   \<longleftrightarrow> vx (box_min box) - 0.5 \<le> vx q \<and> vx q \<le> vx (box_max box) + 0.5
     \<and> vy (box_min box) - 0.5 \<le> vy q \<and> vy q \<le> vy (box_max box) + 0.5
     \<and> vz (box_min box) - 0.5 \<le> vz q \<and> vz q \<le> vz (box_max box) + 0.5"
  by (auto simp add: clipping_planes_def Let_def)

lemma clipping_planes_points:
  assumes "\<not> isEmpty box" and "np \<in> set (clipping_planes box)"
  shows "vx (box_min box) - 0.5 \<le> vx (snd np) \<and> vx (snd np) \<le> vx (box_max box) + 0.5
     \<and> vy (box_min box) - 0.5 \<le> vy (snd np) \<and> vy (snd np) \<le> vy (box_max box) + 0.5
     \<and> vz (box_min box) - 0.5 \<le> vz (snd np) \<and> vz (snd np) \<le> vz (box_max box) + 0.5
     \<and> vx (fst np) * (vx (getCenter box) - vx (snd np))
         + vy (fst np) * (vy (getCenter box) - vy (snd np))
         + vz (fst np) * (vz (getCenter box) - vz (snd np)) > 0"
  using assms
  by (auto simp add: clipping_planes_def Let_def isEmpty_def getCenter_def vec_add_def
        multiplyScalar_def)

text \<open>
  Claim C5. Clipping planes are created by calls of the library's clipper only. With
  a model loaded, \<open>createClippingBox\<close> makes, after replacing the helper box in the
  scene, exactly six calls of \<open>createFromNormalAndCoplanarPoint\<close>: their normals are
  the six axis directions; the half-spaces they point into meet in the bounding box
  of the model grown by 0.5 on every side; and, for a box that is not empty, every
  coplanar point lies in the grown box (hence on its boundary) and the normal at it
  points to the side of the centre of the box.
\<close>

theorem clipping_box_is_six_inward_planes:
  assumes "models st = (modelId, m) # rest"
  shows
    "(let box = object_box m;
          c = getCenter box;
          lo = box_min box;
          hi = box_max box;
          planes =
            [(Vector3 0 (- 1) 0, Vector3 (vx c) (vy hi + 0.5) (vz c)),
             (Vector3 0 1 0, Vector3 (vx c) (vy lo - 0.5) (vz c)),
             (Vector3 0 0 (- 1), Vector3 (vx c) (vy c) (vz hi + 0.5)),
             (Vector3 0 0 1, Vector3 (vx c) (vy c) (vz lo - 0.5)),
             (Vector3 (- 1) 0 0, Vector3 (vx hi + 0.5) (vy c) (vz c)),
             (Vector3 1 0 0, Vector3 (vx lo - 0.5) (vy c) (vz c))]
      in (\<exists>scene.
            set scene \<inter> range (\<lambda>(n, p). ClipperCreateFromNormalAndCoplanarPoint n p) = {}
            \<and> ClipperCreate \<notin> set scene
            \<and> lib_calls (createClippingBox st) =
                lib_calls st @ scene
                  @ map (\<lambda>(n, p). ClipperCreateFromNormalAndCoplanarPoint n p) planes)
       \<and> (\<forall>q. (\<forall>(n, p) \<in> set planes.
                   vx n * (vx q - vx p) + vy n * (vy q - vy p) + vz n * (vz q - vz p) \<ge> 0)
              \<longleftrightarrow> vx lo - 0.5 \<le> vx q \<and> vx q \<le> vx hi + 0.5
                \<and> vy lo - 0.5 \<le> vy q \<and> vy q \<le> vy hi + 0.5
                \<and> vz lo - 0.5 \<le> vz q \<and> vz q \<le> vz hi + 0.5)
       \<and> (\<not> isEmpty box \<longrightarrow>
            (\<forall>(n, p) \<in> set planes.
               vx lo - 0.5 \<le> vx p \<and> vx p \<le> vx hi + 0.5
             \<and> vy lo - 0.5 \<le> vy p \<and> vy p \<le> vy hi + 0.5
             \<and> vz lo - 0.5 \<le> vz p \<and> vz p \<le> vz hi + 0.5
             \<and> vx n * (vx c - vx p) + vy n * (vy c - vy p) + vz n * (vz c - vz p) > 0)))
     \<and> set (onDblClick_clipper clippingMode) \<subseteq> {ClipperCreate}"
proof -
  let ?box = "object_box m"
  let ?c = "getCenter ?box"
  let ?planes =
    "[(Vector3 0 (- 1) 0, Vector3 (vx ?c) (vy (box_max ?box) + 0.5) (vz ?c)),
      (Vector3 0 1 0, Vector3 (vx ?c) (vy (box_min ?box) - 0.5) (vz ?c)),
      (Vector3 0 0 (- 1), Vector3 (vx ?c) (vy ?c) (vz (box_max ?box) + 0.5)),
      (Vector3 0 0 1, Vector3 (vx ?c) (vy ?c) (vz (box_min ?box) - 0.5)),
      (Vector3 (- 1) 0 0, Vector3 (vx (box_max ?box) + 0.5) (vy ?c) (vz ?c)),
      (Vector3 1 0 0, Vector3 (vx (box_min ?box) - 0.5) (vy ?c) (vz ?c))]"
  have planes: "clipping_planes ?box = ?planes"
    by (simp add: clipping_planes_def Let_def)
  let ?h = "\<lparr>helper_center = ?c,
             helper_size = Vector3 (vx (getSize ?box) + 0.5 * 2)
               (vy (getSize ?box) + 0.5 * 2) (vz (getSize ?box) + 0.5 * 2)\<rparr>"
  let ?scene = "(case clippingBoxHelper st of Some h \<Rightarrow> [SceneRemove h] | None \<Rightarrow> [])
                  @ [SceneAdd ?h]"
  have s1: "set ?scene \<inter> range (\<lambda>(n, p). ClipperCreateFromNormalAndCoplanarPoint n p) = {}"
    by (auto split: option.splits)
  have s2: "ClipperCreate \<notin> set ?scene"
    by (auto split: option.splits)
  have s3: "lib_calls (createClippingBox st) =
         lib_calls st @ ?scene
           @ map (\<lambda>(n, p). ClipperCreateFromNormalAndCoplanarPoint n p) ?planes"
    using assms unfolding planes [symmetric]
    by (simp add: createClippingBox_def Let_def case_prod_beta)
  have a: "\<exists>scene.
            set scene \<inter> range (\<lambda>(n, p). ClipperCreateFromNormalAndCoplanarPoint n p) = {}
            \<and> ClipperCreate \<notin> set scene
            \<and> lib_calls (createClippingBox st) =
                lib_calls st @ scene
                  @ map (\<lambda>(n, p). ClipperCreateFromNormalAndCoplanarPoint n p) ?planes"
    using s1 s2 s3 by blast
  have b: "\<forall>q. (\<forall>(n, p) \<in> set ?planes.
                   vx n * (vx q - vx p) + vy n * (vy q - vy p) + vz n * (vz q - vz p) \<ge> 0)
              \<longleftrightarrow> vx (box_min ?box) - 0.5 \<le> vx q \<and> vx q \<le> vx (box_max ?box) + 0.5
                \<and> vy (box_min ?box) - 0.5 \<le> vy q \<and> vy q \<le> vy (box_max ?box) + 0.5
                \<and> vz (box_min ?box) - 0.5 \<le> vz q \<and> vz q \<le> vz (box_max ?box) + 0.5"
    using clipping_planes_bound_box [of ?box] unfolding planes
    by (simp add: case_prod_beta)
  have c: "\<not> isEmpty ?box \<longrightarrow>
            (\<forall>(n, p) \<in> set ?planes.
               vx (box_min ?box) - 0.5 \<le> vx p \<and> vx p \<le> vx (box_max ?box) + 0.5
             \<and> vy (box_min ?box) - 0.5 \<le> vy p \<and> vy p \<le> vy (box_max ?box) + 0.5
             \<and> vz (box_min ?box) - 0.5 \<le> vz p \<and> vz p \<le> vz (box_max ?box) + 0.5
             \<and> vx n * (vx ?c - vx p) + vy n * (vy ?c - vy p) + vz n * (vz ?c - vz p) > 0)"
    using clipping_planes_points [of ?box] unfolding planes
    by (simp add: case_prod_beta Ball_def)
  have d: "set (onDblClick_clipper clippingMode) \<subseteq> {ClipperCreate}"
    by (auto simp: onDblClick_clipper_def)
  show ?thesis
    unfolding Let_def using a b c d by (intro conjI)
qed

theorem clipping_box_is_six_inward_planes_witness:
  "models example_viewer = (''casa'', example_model) # []
   \<and> \<not> isEmpty (object_box example_model)
   \<and> lib_calls (createClippingBox example_viewer) =
       [SceneAdd \<lparr>helper_center = Vector3 5 3.5 2, helper_size = Vector3 11 8 5\<rparr>,
        ClipperCreateFromNormalAndCoplanarPoint (Vector3 0 (- 1) 0) (Vector3 5 7.5 2),
        ClipperCreateFromNormalAndCoplanarPoint (Vector3 0 1 0) (Vector3 5 (- 0.5) 2),
        ClipperCreateFromNormalAndCoplanarPoint (Vector3 0 0 (- 1)) (Vector3 5 3.5 4.5),
        ClipperCreateFromNormalAndCoplanarPoint (Vector3 0 0 1) (Vector3 5 3.5 (- 0.5)),
        ClipperCreateFromNormalAndCoplanarPoint (Vector3 (- 1) 0 0) (Vector3 10.5 3.5 2),
        ClipperCreateFromNormalAndCoplanarPoint (Vector3 1 0 0) (Vector3 (- 0.5) 3.5 2)]"
proof -
  have m: "models example_viewer = (''casa'', example_model) # []"
    by (simp add: example_viewer_def)
  have e: "\<not> isEmpty (object_box example_model)"
    by (simp add: example_model_def example_box_def isEmpty_def)
  have "lib_calls (createClippingBox example_viewer) =
       [SceneAdd \<lparr>helper_center = Vector3 5 3.5 2, helper_size = Vector3 11 8 5\<rparr>,
        ClipperCreateFromNormalAndCoplanarPoint (Vector3 0 (- 1) 0) (Vector3 5 7.5 2),
        ClipperCreateFromNormalAndCoplanarPoint (Vector3 0 1 0) (Vector3 5 (- 0.5) 2),
        ClipperCreateFromNormalAndCoplanarPoint (Vector3 0 0 (- 1)) (Vector3 5 3.5 4.5),
        ClipperCreateFromNormalAndCoplanarPoint (Vector3 0 0 1) (Vector3 5 3.5 (- 0.5)),
        ClipperCreateFromNormalAndCoplanarPoint (Vector3 (- 1) 0 0) (Vector3 10.5 3.5 2),
        ClipperCreateFromNormalAndCoplanarPoint (Vector3 1 0 0) (Vector3 (- 0.5) 3.5 2)]"
    using clipping_box_is_six_inward_planes [OF m]
    by (simp add: createClippingBox_def clipping_planes_def Let_def example_viewer_def
          example_model_def example_box_def getCenter_def getSize_def isEmpty_def vec_add_def
          vec_sub_def multiplyScalar_def)
  with m e show ?thesis by (intro conjI)
qed

subsection \<open>Rendering\<close>

lemma updateViewCube_fields [simp]:
  "cube_constructed (updateViewCube c vc) = cube_constructed vc"
  "cube_render_calls (updateViewCube c vc) = cube_render_calls vc + 1"
  by (simp_all add: updateViewCube_def Let_def)

lemma onAfterUpdate_fields:
  "cube_constructed (onAfterUpdate updates vc) = cube_constructed vc"
  "cube_render_calls (onAfterUpdate updates vc) = cube_render_calls vc + length updates"
  unfolding onAfterUpdate_def
  by (induction updates arbitrary: vc) simp_all

text \<open>
  Claim C6, as stated, fails: \<open>createViewCube\<close> constructs a WebGL renderer, a scene
  and a camera of the viewer's own, and draws with that renderer.
\<close>

theorem view_cube_renderer_counterexample:
  "THREE_WebGLRenderer True True \<in> set (cube_constructed (createViewCube example_controls))
   \<and> THREE_Scene \<in> set (cube_constructed (createViewCube example_controls))
   \<and> cube_render_calls (createViewCube example_controls) = 1"
  by (simp add: createViewCube_def)

text \<open>
  Claim C6, amended. The model is drawn by the renderer of the library, which the
  module constructs together with the library's scene and camera. Besides these the
  viewer constructs one scene, one orthographic camera and one WebGL renderer of the
  3D engine for the view cube, and no more as the frames go by; it draws the view
  cube with that renderer once when it is created and once after every update of the
  library's renderer.
\<close>

theorem view_cube_has_its_own_renderer:
  "world_setup @ cube_constructed (onAfterUpdate updates (createViewCube controls)) =
     [OBC_SimpleScene, OBCF_PostproductionRenderer, OBC_OrthoPerspectiveCamera,
      THREE_Scene, THREE_OrthographicCamera (- 1.5) 1.5 1.5 (- 1.5) 0.1 100,
      THREE_WebGLRenderer True True]
   \<and> cube_render_calls (onAfterUpdate updates (createViewCube controls)) = length updates + 1"
  by (simp add: onAfterUpdate_fields createViewCube_def world_setup_def)

theorem view_cube_has_its_own_renderer_witness:
  "cube_render_calls
     (onAfterUpdate [example_controls, example_controls] (createViewCube example_controls)) = 3
   \<and> length (cube_constructed
       (onAfterUpdate [example_controls, example_controls] (createViewCube example_controls))) = 3"
  using view_cube_has_its_own_renderer [of "[example_controls, example_controls]" example_controls]
  by (simp add: world_setup_def)

end
